theory Spec2Isabelle
  imports Complex_Main "HOL-Library.Sublist" "HOL-Library.Word"
begin

unbundle bit_operations_syntax

section \<open>Errors, promises and big numbers\<close>

text \<open>
  A thrown JavaScript \<open>Error\<close> is a value carrying its message. \<open>invariant(false, msg)\<close> of
  tiny-invariant throws an \<open>Error\<close> whose message is \<open>msg\<close> behind the prefix
  \<open>Invariant failed: \<close> (the test suite matches on exactly that text).
  \<open>InvalidNumber\<close> is the failure the specification gives to the decimal constructor.
\<close>

datatype error = Error string | InvalidNumber

fun message :: "error \<Rightarrow> string" where
  "message (Error m) = m"
| "message InvalidNumber = ''InvalidNumber''"

definition invariant_false :: "string \<Rightarrow> error" where
  "invariant_false msg = Error (''Invariant failed: '' @ msg)"

text \<open>A settled promise: resolved with a value, or rejected with the reason passed to
  \<open>Promise.reject\<close> (everywhere in this code base a message string).\<close>

datatype 'a promise = Resolved 'a | Rejected string

text \<open>\<open>BigNumber\<close> of ethers is an unbounded signed integer; \<open>toString()\<close> prints it in
  decimal, without leading zeros, with a minus sign in front of a negative value.\<close>

definition digit_char :: "nat \<Rightarrow> char" where
  "digit_char d = ''0123456789'' ! d"

fun dec_of_nat :: "nat \<Rightarrow> string" where
  "dec_of_nat n =
     (if n < 10 then [digit_char n] else dec_of_nat (n div 10) @ [digit_char (n mod 10)])"

declare dec_of_nat.simps [simp del]

definition toString :: "int \<Rightarrow> string" where
  "toString i = (if i < 0 then CHR ''-'' # dec_of_nat (nat (- i)) else dec_of_nat (nat i))"

text \<open>Reading a decimal numeral back; used to show that printing loses nothing.\<close>

definition digit_val :: "char \<Rightarrow> nat" where
  "digit_val c = of_char c - 48"

definition nat_of_dec :: "string \<Rightarrow> nat" where
  "nat_of_dec s = foldl (\<lambda>a c. 10 * a + digit_val c) 0 s"

section \<open>Types of the protocol (types.ts)\<close>

record DecimalValue =
  "value" :: int

record BidShares =
  owner :: DecimalValue
  prevOwner :: DecimalValue
  creator :: DecimalValue

text \<open>An amount is \<open>BigNumberish\<close>; it is passed on unchanged and is taken as an integer.
  A \<open>Bid\<close> has the two fields of an \<open>Ask\<close> and three more.\<close>

record Ask =
  currency :: string
  amount :: int

record Bid = Ask +
  bidder :: string
  recipient :: string
  sellOnShare :: DecimalValue

section \<open>Decimal\<close>

text \<open>
  Modelled from the spec: \<open>Decimal.new\<close> lives in \<open>src/Decimal.ts\<close>, which is not among the
  sources; only its callers and tests are. The specification has it scale a number by
  \<open>10^18\<close> into an integer-valued fixed-point number and fail with \<open>InvalidNumber\<close> on a
  negative input (the tests agree: \<open>Decimal.new(10)\<close> prints as \<open>10000000000000000000\<close>).
  The argument is the number as a decimal numeral, the way JavaScript prints it (in the
  callers here an integer literal, or what \<open>parseFloat\<close> has read from a numeral with four
  fractional digits); non-finite numbers are outside the model.
\<close>

definition Decimal_new :: "real \<Rightarrow> error + DecimalValue" where
  "Decimal_new v = (if v < 0 then Inl InvalidNumber else Inr \<lparr>value = \<lfloor>v * 10 ^ 18\<rfloor>\<rparr>)"

section \<open>Validation of bid shares (utils.ts)\<close>

definition validateBidShares ::
  "DecimalValue \<Rightarrow> DecimalValue \<Rightarrow> DecimalValue \<Rightarrow> error + unit" where
  "validateBidShares creator' owner' prevOwner' =
     (case Decimal_new 100 of
        Inl e \<Rightarrow> Inl e
      | Inr decimal100 \<Rightarrow>
          (let sum = value creator' + value owner' + value prevOwner' in
           if toString sum \<noteq> toString (value decimal100)
           then Inl (invariant_false
                  (''The BidShares sum to '' @ toString sum @
                   '', but they must sum to '' @ toString (value decimal100)))
           else Inr ()))"

section \<open>Byte strings (the functions of @ethersproject/bytes that utils.ts calls)\<close>

text \<open>
  \<open>BytesLike\<close> is a string or an array of numbers. Strings are sequences of code units
  below 256; array elements are integers (\<open>isBytes\<close> rejects an element outside
  \<open>0..255\<close>). The library functions are modelled after ethers v5:
  \<open>isHexString\<close> tests the regular expression \<open>^0x[0-9A-Fa-f]*$\<close>; \<open>hexlify\<close> lower-cases a
  hex string of even length, prints a byte array with two lower-case digits per byte and
  throws on anything else (the argument details that ethers appends to the message are
  left out); \<open>hexDataLength\<close> is \<open>null\<close> on a string that is not hex data.
  \<open>toLowerCase\<close> maps the upper-case letters among the code units below 256 (\<open>A\<close> to
  \<open>Z\<close> and the accented capitals of Latin-1) to their lower-case forms.
\<close>

datatype BytesLike = Str string | Bytes "int list"

definition isHexDigit :: "char \<Rightarrow> bool" where
  "isHexDigit c = (c \<in> set ''0123456789ABCDEFabcdef'')"

definition isHexString :: "string \<Rightarrow> bool" where
  "isHexString v = (take 2 v = ''0x'' \<and> list_all isHexDigit (drop 2 v))"

definition isBytes :: "int list \<Rightarrow> bool" where
  "isBytes vs = list_all (\<lambda>v. 0 \<le> v \<and> v < 256) vs"

definition HexCharacters :: string where
  "HexCharacters = ''0123456789abcdef''"

definition hexByte :: "int \<Rightarrow> string" where
  "hexByte v = [HexCharacters ! nat (drop_bit 4 (v AND 0xf0)), HexCharacters ! nat (v AND 0x0f)]"

definition toLowerCase :: "string \<Rightarrow> string" where
  "toLowerCase s =
     map (\<lambda>c. let k = of_char c :: nat in
              if (65 \<le> k \<and> k \<le> 90) \<or> (192 \<le> k \<and> k \<le> 214) \<or> (216 \<le> k \<and> k \<le> 222)
              then char_of (k + 32) else c) s"

definition hexlify :: "BytesLike \<Rightarrow> error + string" where
  "hexlify v =
     (case v of
        Str s \<Rightarrow>
          if isHexString s then
            (if odd (length s) then Inl (Error ''hex data is odd-length'')
             else Inr (toLowerCase s))
          else Inl (Error ''invalid hexlify value'')
      | Bytes bs \<Rightarrow>
          if isBytes bs then Inr (''0x'' @ concat (map hexByte bs))
          else Inl (Error ''invalid hexlify value''))"

definition hexDataLength :: "BytesLike \<Rightarrow> error + nat option" where
  "hexDataLength data =
     (case data of
        Bytes bs \<Rightarrow>
          (case hexlify (Bytes bs) of
             Inl e \<Rightarrow> Inl e
           | Inr h \<Rightarrow> Inr (Some ((length h - 2) div 2)))
      | Str s \<Rightarrow>
          if \<not> isHexString s \<or> odd (length s) then Inr None
          else Inr (Some ((length s - 2) div 2)))"

section \<open>Validators of hashes and URIs (utils.ts)\<close>

definition validateBytes32 :: "BytesLike \<Rightarrow> error + unit" where
  "validateBytes32 v =
     (case v of
        Str s \<Rightarrow>
          if isHexString s \<and> hexDataLength (Str s) = Inr (Some 32) then Inr ()
          else Inl (invariant_false (s @ '' is not a 0x prefixed 32 bytes hex string''))
      | Bytes bs \<Rightarrow>
          (case hexlify (Bytes bs) of
             Inl e \<Rightarrow> Inl e
           | Inr h \<Rightarrow>
               (case hexDataLength (Str h) of
                  Inl e \<Rightarrow> Inl e
                | Inr n \<Rightarrow>
                    if n = Some 32 then Inr ()
                    else Inl (invariant_false ''value is not a length 32 byte array''))))"

text \<open>
  \<open>uri.match(/^https:\/\/(.*)/)\<close>: the expression is anchored at the start of the string,
  and its group takes the longest run of characters that are not line terminators, which
  may be empty. The result is the text of the group, or \<open>None\<close> for \<open>null\<close>.
\<close>

definition isLineTerminator :: "char \<Rightarrow> bool" where
  "isLineTerminator c = (c = CHR 0x0A \<or> c = CHR 0x0D)"

definition match_https :: "string \<Rightarrow> string option" where
  "match_https uri =
     (if take 8 uri = ''https://''
      then Some (takeWhile (\<lambda>c. \<not> isLineTerminator c) (drop 8 uri))
      else None)"

definition validateURI :: "string \<Rightarrow> error + unit" where
  "validateURI uri =
     (if match_https uri = None
      then Inl (invariant_false (uri @ '' must begin with `https://`''))
      else Inr ())"

section \<open>Constructors of bid shares, asks and bids (utils.ts)\<close>

text \<open>
  \<open>x.toFixed(4)\<close> of ECMAScript sets the sign of \<open>x\<close> aside and prints the integer \<open>n\<close> for
  which \<open>n / 10^4\<close> is as close to the exact value of \<open>x\<close> as possible, the larger one if
  two are equally close, with a decimal point before its last four digits; a number of
  magnitude \<open>10^21\<close> or more is printed as \<open>toString\<close> prints it. \<open>parseFloat\<close> reads the
  numeral back. \<open>toFixed4 x\<close> is the number that this numeral denotes. A double holds a
  numeral with four fractional digits well enough to print it back as long as the numeral
  has at most 15 significant digits, so the model follows the code for magnitudes below
  \<open>10^11\<close>; the properties below are stated there.
\<close>

definition toFixed4 :: "real \<Rightarrow> real" where
  "toFixed4 x =
     (if 10 ^ 21 \<le> \<bar>x\<bar> then x
      else if x < 0 then - (of_int \<lfloor>(- x) * 10 ^ 4 + 1 / 2\<rfloor> / 10 ^ 4)
      else of_int \<lfloor>x * 10 ^ 4 + 1 / 2\<rfloor> / 10 ^ 4)"

text \<open>The expression \<open>Decimal.new(parseFloat(x.toFixed(4)))\<close>, which \<open>constructBidShares\<close>
  applies to each share and \<open>constructBid\<close> to the sell-on share.\<close>

definition makeDecimal :: "real \<Rightarrow> error + DecimalValue" where
  "makeDecimal x = Decimal_new (toFixed4 x)"

definition constructBidShares :: "real \<Rightarrow> real \<Rightarrow> real \<Rightarrow> error + BidShares" where
  "constructBidShares creator' owner' prevOwner' =
     (case makeDecimal creator' of
        Inl e \<Rightarrow> Inl e
      | Inr decimalCreator \<Rightarrow>
     (case makeDecimal owner' of
        Inl e \<Rightarrow> Inl e
      | Inr decimalOwner \<Rightarrow>
     (case makeDecimal prevOwner' of
        Inl e \<Rightarrow> Inl e
      | Inr decimalPrevOwner \<Rightarrow>
     (case validateBidShares decimalCreator decimalOwner decimalPrevOwner of
        Inl e \<Rightarrow> Inl e
      | Inr _ \<Rightarrow>
          Inr \<lparr>owner = decimalOwner, prevOwner = decimalPrevOwner,
               creator = decimalCreator\<rparr>))))"

text \<open>
  \<open>getAddress\<close> of ethers is a parameter: it returns the checksummed form of a valid
  address and throws otherwise (\<open>None\<close>). The warning printed for an address that is not
  checksummed has no effect on the result.
\<close>

definition validateAndParseAddress :: "(string \<Rightarrow> string option) \<Rightarrow> string \<Rightarrow> error + string" where
  "validateAndParseAddress getAddress address =
     (case getAddress address of
        Some checksummedAddress \<Rightarrow> Inr checksummedAddress
      | None \<Rightarrow> Inl (invariant_false (address @ '' is not a valid address.'')))"

definition constructAsk :: "(string \<Rightarrow> string option) \<Rightarrow> string \<Rightarrow> int \<Rightarrow> error + Ask" where
  "constructAsk getAddress currency' amount' =
     (case validateAndParseAddress getAddress currency' of
        Inl e \<Rightarrow> Inl e
      | Inr parsedCurrency \<Rightarrow> Inr \<lparr>currency = parsedCurrency, amount = amount'\<rparr>)"

definition constructBid ::
  "(string \<Rightarrow> string option) \<Rightarrow> string \<Rightarrow> int \<Rightarrow> string \<Rightarrow> string \<Rightarrow> real \<Rightarrow> error + Bid" where
  "constructBid getAddress currency' amount' bidder' recipient' sellOnShare' =
     (case validateAndParseAddress getAddress currency' of
        Inl err \<Rightarrow> Inl (Error (''Currency address is invalid: '' @ message err))
      | Inr parsedCurrency \<Rightarrow>
     (case validateAndParseAddress getAddress bidder' of
        Inl err \<Rightarrow> Inl (Error (''Bidder address is invalid: '' @ message err))
      | Inr parsedBidder \<Rightarrow>
     (case validateAndParseAddress getAddress recipient' of
        Inl err \<Rightarrow> Inl (Error (''Recipient address is invalid: '' @ message err))
      | Inr parsedRecipient \<Rightarrow>
     (case makeDecimal sellOnShare' of
        Inl e \<Rightarrow> Inl e
      | Inr decimalSellOnShare \<Rightarrow>
          Inr \<lparr>currency = parsedCurrency, amount = amount', bidder = parsedBidder,
               recipient = parsedRecipient, sellOnShare = decimalSellOnShare\<rparr>))))"

text \<open>What the specification's wording, truncation to four fractional digits, would
  compute for a non-negative input: the digits beyond the fourth are dropped.\<close>

definition spec_truncate4 :: "real \<Rightarrow> DecimalValue" where
  "spec_truncate4 x = \<lparr>value = \<lfloor>x * 10 ^ 4\<rfloor> * 10 ^ 14\<rparr>"

section \<open>Hashing (utils.ts, with the functions of sjcl and Buffer that it calls)\<close>

text \<open>
  A bit array of sjcl is a sequence of bits, most significant first. \<open>sjcl.codec.hex.toBits\<close>
  removes white space and every \<open>0x\<close> from the string, appends eight zeros, reads each group
  of eight characters with \<open>parseInt(_, 16) ^ 0\<close> and keeps four bits per character of the
  stripped string. \<open>parseInt\<close> skips leading white space, a sign and a \<open>0x\<close> prefix and
  reads the longest run of hex digits (\<open>NaN\<close>, here \<open>None\<close>, if there is none);
  \<open>^ 0\<close> turns the result into a 32-bit integer, \<open>NaN\<close> into \<open>0\<close>.
  \<open>sjcl.codec.hex.fromBits\<close> prints eight lower-case hex digits per word.
  A \<open>Buffer\<close> is a list of bytes; \<open>toString("hex")\<close> prints two lower-case digits per byte.
\<close>

type_synonym bitArray = "bool list"

definition isWhiteSpace :: "char \<Rightarrow> bool" where
  "isWhiteSpace c = (of_char c \<in> {9, 10, 11, 12, 13, 32, 160 :: nat})"

fun strip_ws_0x :: "string \<Rightarrow> string" where
  "strip_ws_0x [] = []"
| "strip_ws_0x [c] = (if isWhiteSpace c then [] else [c])"
| "strip_ws_0x (c # d # cs) =
     (if isWhiteSpace c then strip_ws_0x (d # cs)
      else if c = CHR ''0'' \<and> d = CHR ''x'' then strip_ws_0x cs
      else c # strip_ws_0x (d # cs))"

definition hexDigitValue :: "char \<Rightarrow> nat option" where
  "hexDigitValue c =
     (let k = of_char c :: nat in
      if 48 \<le> k \<and> k \<le> 57 then Some (k - 48)
      else if 65 \<le> k \<and> k \<le> 70 then Some (k - 55)
      else if 97 \<le> k \<and> k \<le> 102 then Some (k - 87)
      else None)"

definition parseInt16 :: "string \<Rightarrow> int option" where
  "parseInt16 str =
     (let s1 = dropWhile isWhiteSpace str;
          neg = (take 1 s1 = ''-'');
          s2 = (if take 1 s1 = ''-'' \<or> take 1 s1 = ''+'' then drop 1 s1 else s1);
          s3 = (if take 2 s2 = ''0x'' \<or> take 2 s2 = ''0X'' then drop 2 s2 else s2);
          z = takeWhile (\<lambda>c. hexDigitValue c \<noteq> None) s3;
          n = foldl (\<lambda>a c. case hexDigitValue c of Some d \<Rightarrow> 16 * a + int d | None \<Rightarrow> a) 0 z
      in if z = [] then None else Some (if neg then - n else n))"

definition toInt32 :: "int option \<Rightarrow> 32 word" where
  "toInt32 v = (case v of None \<Rightarrow> 0 | Some n \<Rightarrow> word_of_int n)"

function chunks :: "nat \<Rightarrow> 'a list \<Rightarrow> 'a list list" where
  "chunks n xs = (if n = 0 \<or> xs = [] then [] else take n xs # chunks n (drop n xs))"
  by pat_completeness auto
termination
  by (relation "measure (\<lambda>(n, xs). length xs)") auto

declare chunks.simps [simp del]

definition bits32 :: "32 word \<Rightarrow> bool list" where
  "bits32 w = map (\<lambda>i. bit w (31 - i)) [0..<32]"

definition hex_toBits :: "string \<Rightarrow> bitArray" where
  "hex_toBits str =
     (let s = strip_ws_0x str;
          len = length s;
          out = map (\<lambda>c. toInt32 (parseInt16 c)) (chunks 8 (s @ ''00000000''))
      in take (len * 4) (concat (map bits32 out)))"

definition hexWord :: "32 word \<Rightarrow> string" where
  "hexWord w = map (\<lambda>i. HexCharacters ! unat (drop_bit (4 * (7 - i)) w AND 15)) [0..<8]"

definition hex_fromBits :: "32 word list \<Rightarrow> string" where
  "hex_fromBits arr = concat (map hexWord arr)"

text \<open>
  \<open>sjcl.hash.sha256.hash\<close> is SHA-256 on a bit array: the message is padded with a one
  bit, zero bits and its length as a 64-bit number to a multiple of 512 bits, and every
  block of sixteen 32-bit words is compressed into the state of eight words. sjcl computes
  its tables when the hash is first used: the round keys are the first 32 bits of the
  fractional parts of the cube roots of the first 64 primes, the initial state those of
  the square roots of the first 8 primes; the primes are found by trial division.
  \<open>floor_root k n\<close> is the largest \<open>r\<close> below \<open>2^40\<close> with \<open>r^k \<le> n\<close>, built bit by bit.
\<close>

definition isPrime :: "nat \<Rightarrow> bool" where
  "isPrime p = (2 \<le> p \<and> list_all (\<lambda>factor. factor * factor > p \<or> p mod factor \<noteq> 0) [2..<p])"

definition primes64 :: "nat list" where
  "primes64 = filter isPrime [2..<312]"

definition floor_root :: "nat \<Rightarrow> nat \<Rightarrow> nat" where
  "floor_root k n = foldl (\<lambda>r b. if (r + 2 ^ b) ^ k \<le> n then r + 2 ^ b else r) 0 (rev [0..<40])"

definition K256 :: "32 word list" where
  "K256 = map (\<lambda>p. word_of_nat (floor_root 3 (p * 2 ^ 96))) primes64"

definition sha_init :: "32 word list" where
  "sha_init = map (\<lambda>p. word_of_nat (floor_root 2 (p * 2 ^ 64))) (take 8 primes64)"

definition Ch :: "32 word \<Rightarrow> 32 word \<Rightarrow> 32 word \<Rightarrow> 32 word" where
  "Ch x y z = (x AND y) XOR (NOT x AND z)"

definition Maj :: "32 word \<Rightarrow> 32 word \<Rightarrow> 32 word \<Rightarrow> 32 word" where
  "Maj x y z = (x AND y) XOR (x AND z) XOR (y AND z)"

definition Sigma0 :: "32 word \<Rightarrow> 32 word" where
  "Sigma0 x = word_rotr 2 x XOR word_rotr 13 x XOR word_rotr 22 x"

definition Sigma1 :: "32 word \<Rightarrow> 32 word" where
  "Sigma1 x = word_rotr 6 x XOR word_rotr 11 x XOR word_rotr 25 x"

definition sigma0 :: "32 word \<Rightarrow> 32 word" where
  "sigma0 x = word_rotr 7 x XOR word_rotr 18 x XOR drop_bit 3 x"

definition sigma1 :: "32 word \<Rightarrow> 32 word" where
  "sigma1 x = word_rotr 17 x XOR word_rotr 19 x XOR drop_bit 10 x"

fun schedule :: "nat \<Rightarrow> 32 word list \<Rightarrow> 32 word list" where
  "schedule 0 w = w"
| "schedule (Suc k) w =
     (let n = length w in
      schedule k (w @ [sigma1 (w ! (n - 2)) + w ! (n - 7) + sigma0 (w ! (n - 15)) + w ! (n - 16)]))"

definition round256 :: "32 word list \<Rightarrow> 32 word \<times> 32 word \<Rightarrow> 32 word list" where
  "round256 st kw =
     (case st of
        [a, b, c, d, e, f, g, h] \<Rightarrow>
          (let t1 = h + Sigma1 e + Ch e f g + fst kw + snd kw;
               t2 = Sigma0 a + Maj a b c
           in [t1 + t2, a, b, c, d + t1, e, f, g])
      | _ \<Rightarrow> st)"

definition sha_block :: "32 word list \<Rightarrow> 32 word list \<Rightarrow> 32 word list" where
  "sha_block st m =
     (let st' = foldl round256 st (zip K256 (schedule 48 m))
      in map (\<lambda>i. st ! i + st' ! i) [0..<8])"

definition word_of_bits :: "bool list \<Rightarrow> 32 word" where
  "word_of_bits bs = foldl (\<lambda>w b. 2 * w + (if b then 1 else 0)) 0 bs"

definition sha_pad :: "bitArray \<Rightarrow> bitArray" where
  "sha_pad bs =
     (let l = length bs;
          k = (447 + 512 - l mod 512) mod 512
      in bs @ [True] @ replicate k False @
         map (\<lambda>i. bit (word_of_nat l :: 64 word) (63 - i)) [0..<64])"

definition sha256_hash :: "bitArray \<Rightarrow> 32 word list" where
  "sha256_hash bs =
     foldl sha_block sha_init
       (map (\<lambda>blk. map word_of_bits (chunks 32 blk)) (chunks 512 (sha_pad bs)))"

definition Buffer_toString_hex :: "8 word list \<Rightarrow> string" where
  "Buffer_toString_hex buffer = concat (map (\<lambda>b. hexByte (uint b)) buffer)"

definition sha256FromBuffer :: "8 word list \<Rightarrow> string" where
  "sha256FromBuffer buffer =
     (let bitArray = hex_toBits (Buffer_toString_hex buffer);
          hashArray = sha256_hash bitArray
      in ''0x'' @ hex_fromBits hashArray)"

definition sha256FromHexString :: "string \<Rightarrow> error + string" where
  "sha256FromHexString data =
     (if \<not> isHexString data then Inl (Error (data @ '' is not valid 0x prefixed hex''))
      else
        let bitArray = hex_toBits data;
            hashArray = sha256_hash bitArray
        in Inr (''0x'' @ hex_fromBits hashArray))"

definition stripHexPrefix :: "string \<Rightarrow> string" where
  "stripHexPrefix hex = (if take 2 hex = ''0x'' then drop 2 hex else hex)"

section \<open>Verification of content against its hash (utils.ts)\<close>

record ItemData =
  tokenURI :: string
  metadataURI :: string
  contentHash :: BytesLike
  metadataHash :: BytesLike

record AvatarData = ItemData +
  isDefault :: bool

record SpaceData = ItemData +
  isPublic :: bool
  lands :: "int list"
  pin :: string

record LandData = ItemData +
  xCoordinate :: real
  yCoordinate :: real

definition constructItemData :: "string \<Rightarrow> string \<Rightarrow> BytesLike \<Rightarrow> BytesLike \<Rightarrow> error + ItemData" where
  "constructItemData tokenURI' metadataURI' contentHash' metadataHash' =
     (case validateBytes32 contentHash' of
        Inl e \<Rightarrow> Inl e
      | Inr _ \<Rightarrow>
     (case validateBytes32 metadataHash' of
        Inl e \<Rightarrow> Inl e
      | Inr _ \<Rightarrow>
     (case validateURI tokenURI' of
        Inl e \<Rightarrow> Inl e
      | Inr _ \<Rightarrow>
     (case validateURI metadataURI' of
        Inl e \<Rightarrow> Inl e
      | Inr _ \<Rightarrow>
          Inr \<lparr>tokenURI = tokenURI', metadataURI = metadataURI',
               contentHash = contentHash', metadataHash = metadataHash'\<rparr>))))"

text \<open>
  \<open>axios.get\<close> is a parameter: for a URI and a timeout it gives the body of the response,
  or fails (no connection, a status outside 2xx, the timeout) with the message of its
  error. The state that the functions pass on is the list of the URIs requested so far,
  in the order of the requests. An \<open>await\<close> of a rejected promise ends the
  \<open>async\<close> function at that point with the same rejection.
\<close>

type_synonym network = "string \<Rightarrow> int \<Rightarrow> string + 8 word list"

definition isURIHashVerified ::
  "network \<Rightarrow> string \<Rightarrow> BytesLike \<Rightarrow> int \<Rightarrow> string list \<Rightarrow> bool promise \<times> string list" where
  "isURIHashVerified get uri expectedHash timeout requests =
     (case validateURI uri of
        Inl err \<Rightarrow> (Rejected (message err), requests)
      | Inr _ \<Rightarrow>
          (case get uri timeout of
             Inl msg \<Rightarrow> (Rejected msg, requests @ [uri])
           | Inr data \<Rightarrow>
               (let uriHash = sha256FromBuffer data in
                case hexlify expectedHash of
                  Inl err \<Rightarrow> (Rejected (message err), requests @ [uri])
                | Inr normalizedExpectedHash \<Rightarrow>
                    (Resolved (uriHash = normalizedExpectedHash), requests @ [uri]))))"

definition isItemDataVerified ::
  "network \<Rightarrow> ItemData \<Rightarrow> int \<Rightarrow> string list \<Rightarrow> bool promise \<times> string list" where
  "isItemDataVerified get itemData timeout requests =
     (case isURIHashVerified get (tokenURI itemData) (contentHash itemData) timeout requests of
        (Rejected reason, requests1) \<Rightarrow> (Rejected reason, requests1)
      | (Resolved isTokenURIVerified, requests1) \<Rightarrow>
          (case isURIHashVerified get (metadataURI itemData) (metadataHash itemData) timeout
                  requests1 of
             (Rejected reason, requests2) \<Rightarrow> (Rejected reason, requests2)
           | (Resolved isMetadataURIVerified, requests2) \<Rightarrow>
               (Resolved (isTokenURIVerified \<and> isMetadataURIVerified), requests2)))"

definition isAvatarDataVerified ::
  "network \<Rightarrow> AvatarData \<Rightarrow> int \<Rightarrow> string list \<Rightarrow> bool promise \<times> string list" where
  "isAvatarDataVerified get avatarData timeout requests =
     (case isURIHashVerified get (tokenURI avatarData) (contentHash avatarData) timeout requests of
        (Rejected reason, requests1) \<Rightarrow> (Rejected reason, requests1)
      | (Resolved isTokenURIVerified, requests1) \<Rightarrow>
          (case isURIHashVerified get (metadataURI avatarData) (metadataHash avatarData) timeout
                  requests1 of
             (Rejected reason, requests2) \<Rightarrow> (Rejected reason, requests2)
           | (Resolved isMetadataURIVerified, requests2) \<Rightarrow>
               (Resolved (isTokenURIVerified \<and> isMetadataURIVerified), requests2)))"

definition isSpaceDataVerified ::
  "network \<Rightarrow> SpaceData \<Rightarrow> int \<Rightarrow> string list \<Rightarrow> bool promise \<times> string list" where
  "isSpaceDataVerified get spaceData timeout requests =
     (case isURIHashVerified get (tokenURI spaceData) (contentHash spaceData) timeout requests of
        (Rejected reason, requests1) \<Rightarrow> (Rejected reason, requests1)
      | (Resolved isTokenURIVerified, requests1) \<Rightarrow>
          (case isURIHashVerified get (metadataURI spaceData) (metadataHash spaceData) timeout
                  requests1 of
             (Rejected reason, requests2) \<Rightarrow> (Rejected reason, requests2)
           | (Resolved isMetadataURIVerified, requests2) \<Rightarrow>
               (Resolved (isTokenURIVerified \<and> isMetadataURIVerified), requests2)))"

definition isLandDataVerified ::
  "network \<Rightarrow> LandData \<Rightarrow> int \<Rightarrow> string list \<Rightarrow> bool promise \<times> string list" where
  "isLandDataVerified get landData timeout requests =
     (case isURIHashVerified get (tokenURI landData) (contentHash landData) timeout requests of
        (Rejected reason, requests1) \<Rightarrow> (Rejected reason, requests1)
      | (Resolved isTokenURIVerified, requests1) \<Rightarrow>
          (case isURIHashVerified get (metadataURI landData) (metadataHash landData) timeout
                  requests1 of
             (Rejected reason, requests2) \<Rightarrow> (Rejected reason, requests2)
           | (Resolved isMetadataURIVerified, requests2) \<Rightarrow>
               (Resolved (isTokenURIVerified \<and> isMetadataURIVerified), requests2)))"

text \<open>The lower-case hex digits, and a content record cut down to the four fields that
  all kinds of records share.\<close>

definition isLowerHex :: "char \<Rightarrow> bool" where
  "isLowerHex c = (c \<in> set ''0123456789abcdef'')"

definition asItemData :: "'a ItemData_scheme \<Rightarrow> ItemData" where
  "asItemData d = \<lparr>tokenURI = tokenURI d, metadataURI = metadataURI d,
                   contentHash = contentHash d, metadataHash = metadataHash d\<rparr>"

text \<open>Example inputs: a network that serves one URI, a network on which every request
  times out, and an item whose hashes are the digest of the served body.\<close>

definition example_network :: network where
  "example_network uri timeout =
     (if uri = ''https://a.io/x'' then Inr [0x61] else Inl ''Network Error'')"

definition failing_network :: network where
  "failing_network uri timeout = Inl ''timeout of 10ms exceeded''"

definition example_item :: ItemData where
  "example_item = \<lparr>tokenURI = ''https://a.io/x'', metadataURI = ''https://a.io/m'',
                    contentHash = Str (sha256FromBuffer [0x61]),
                    metadataHash = Str (sha256FromBuffer [0x61])\<rparr>"

section \<open>The item contracts and their wrapper (MotifItem.ts)\<close>

text \<open>
  The bindings of the two deployed contracts (\<open>item\<close> and \<open>itemExchange\<close>, generated by
  typechain) are outside the code base. A call of a contract method is a value of type
  \<open>call\<close>; the chain is a parameter that answers a call by resolving or by rejecting with a
  reason, with one answering function per result type of the bindings. The state that the
  methods pass on is the list of the calls made so far.
\<close>

record EIP712Signature =
  deadline :: int
  sig_v :: int
  sig_r :: BytesLike
  sig_s :: BytesLike

datatype call =
    item_tokenContentHashes int
  | item_tokenMetadataHashes int
  | item_tokenContractAddresses int
  | item_tokenURI int
  | item_tokenMetadataURI int
  | item_tokenCreators int
  | exchange_bidSharesForToken int
  | exchange_currentAskForToken int
  | exchange_bidForTokenBidder int string
  | item_permitNonces string int
  | item_mintWithSigNonces string
  | item_updateTokenURI int string
  | item_updateTokenMetadataURI int string
  | item_estimateGas_mint ItemData BidShares
  | item_mint ItemData BidShares string
  | item_estimateGas_mintMultiple "ItemData list" "BidShares list"
  | item_mintMultiple "ItemData list" "BidShares list" string
  | item_mintWithSig string ItemData BidShares EIP712Signature
  | item_setAsk int Ask
  | item_setBid int Bid
  | item_removeAsk int
  | item_removeBid int
  | item_acceptBid int Bid
  | item_permit string int EIP712Signature
  | item_revokeApproval int
  | item_burn int
  | item_balanceOf string
  | item_ownerOf int
  | item_tokenOfOwnerByIndex string int
  | item_totalSupply
  | item_tokenByIndex int
  | item_getApproved int
  | item_isApprovedForAll string string
  | item_approve string int
  | item_setApprovalForAll string bool
  | item_transferFrom string string int
  | item_safeTransferFrom string string int
  | exchange_isValidBid int int

record 'tx chain =
  transact :: "call \<Rightarrow> string + 'tx"
  estimate :: "call \<Rightarrow> string + int"
  read_string :: "call \<Rightarrow> string + string"
  read_number :: "call \<Rightarrow> string + int"
  read_bool :: "call \<Rightarrow> string + bool"
  read_bidShares :: "call \<Rightarrow> string + BidShares"
  read_ask :: "call \<Rightarrow> string + Ask"
  read_bid :: "call \<Rightarrow> string + Bid"

definition perform :: "(call \<Rightarrow> string + 'a) \<Rightarrow> call \<Rightarrow> call list \<Rightarrow> 'a promise \<times> call list" where
  "perform answer c calls =
     ((case answer c of Inl reason \<Rightarrow> Rejected reason | Inr v \<Rightarrow> Resolved v), calls @ [c])"

text \<open>The statements of a \<open>try\<close> block that only validate: the first one that throws
  decides.\<close>

fun attempt :: "(error + unit) list \<Rightarrow> error + unit" where
  "attempt [] = Inr ()"
| "attempt (Inl e # vs) = Inl e"
| "attempt (Inr u # vs) = attempt vs"

text \<open>\<open>BigNumber.div\<close> rounds towards zero.\<close>

definition bn_div :: "int \<Rightarrow> int \<Rightarrow> int" where
  "bn_div a b = sgn a * sgn b * (\<bar>a\<bar> div \<bar>b\<bar>)"

datatype SignerOrProvider = Signer string | Provider string

fun isSigner :: "SignerOrProvider \<Rightarrow> bool" where
  "isSigner (Signer k) = True"
| "isSigner (Provider u) = False"

record MotifItem =
  chainId :: int
  itemAddress :: string
  itemExchangeAddress :: string
  signerOrProvider :: SignerOrProvider
  readOnly :: bool

definition chainIdToNetworkName :: "int \<Rightarrow> error + string" where
  "chainIdToNetworkName chainId' =
     (if chainId' = 7018 then Inr ''motif''
      else if chainId' = 3 then Inr ''ropsten''
      else if chainId' = 1 then Inr ''mainnet''
      else Inl (invariant_false
             (''chainId '' @ toString chainId' @ '' not officially supported by the Motif'')))"

text \<open>
  The constructor. An optional address counts as given when it is a non-empty string. The
  address book (\<open>addresses.ts\<close>, filled from JSON files of another package) is a parameter
  that maps the name of a network to the addresses of its item and item exchange contracts;
  reading an entry of a network that the book lacks throws a \<open>TypeError\<close>, whose wording
  depends on the engine.
\<close>

definition truthy :: "string option \<Rightarrow> string option" where
  "truthy a = (case a of None \<Rightarrow> None | Some s \<Rightarrow> if s = [] then None else Some s)"

definition MotifItem_new ::
  "(string \<Rightarrow> string option) \<Rightarrow> (string \<Rightarrow> (string \<times> string) option) \<Rightarrow>
   SignerOrProvider \<Rightarrow> int \<Rightarrow> string option \<Rightarrow> string option \<Rightarrow> error + MotifItem" where
  "MotifItem_new getAddress addresses signerOrProvider' chainId' itemAddress' itemExchangeAddress' =
     (if (truthy itemAddress' = None) \<noteq> (truthy itemExchangeAddress' = None)
      then Inl (invariant_false
             ''Motif Constructor: itemAddress and itemExchangeAddress must both be non-null or both be null'')
      else
        (let readOnly' = (if isSigner signerOrProvider' then False else True) in
         case (truthy itemAddress', truthy itemExchangeAddress') of
           (Some a, Some b) \<Rightarrow>
             (case validateAndParseAddress getAddress a of
                Inl e \<Rightarrow> Inl e
              | Inr parsedItemAddress \<Rightarrow>
                  (case validateAndParseAddress getAddress b of
                     Inl e \<Rightarrow> Inl e
                   | Inr parsedItemExchangeAddress \<Rightarrow>
                       Inr \<lparr>chainId = chainId', itemAddress = parsedItemAddress,
                            itemExchangeAddress = parsedItemExchangeAddress,
                            signerOrProvider = signerOrProvider', readOnly = readOnly'\<rparr>))
         | _ \<Rightarrow>
             (case chainIdToNetworkName chainId' of
                Inl e \<Rightarrow> Inl e
              | Inr network \<Rightarrow>
                  (case addresses network of
                     None \<Rightarrow> Inl (Error ''TypeError: addresses[network] is undefined'')
                   | Some (item, itemExchange) \<Rightarrow>
                       Inr \<lparr>chainId = chainId', itemAddress = item,
                            itemExchangeAddress = itemExchange,
                            signerOrProvider = signerOrProvider', readOnly = readOnly'\<rparr>))))"

definition ensureNotReadOnly :: "MotifItem \<Rightarrow> error + unit" where
  "ensureNotReadOnly this =
     (if readOnly this
      then Inl (Error ''ensureNotReadOnly: readOnly Motif instance cannot call contract methods that require a signer.'')
      else Inr ())"

subsection \<open>View methods\<close>

definition fetchContentHash :: "MotifItem \<Rightarrow> 'tx chain \<Rightarrow> int \<Rightarrow> call list \<Rightarrow> string promise \<times> call list" where
  "fetchContentHash this ch itemId calls = perform (read_string ch) (item_tokenContentHashes itemId) calls"

definition fetchMetadataHash :: "MotifItem \<Rightarrow> 'tx chain \<Rightarrow> int \<Rightarrow> call list \<Rightarrow> string promise \<times> call list" where
  "fetchMetadataHash this ch itemId calls = perform (read_string ch) (item_tokenMetadataHashes itemId) calls"

definition fetchTokenContract :: "MotifItem \<Rightarrow> 'tx chain \<Rightarrow> int \<Rightarrow> call list \<Rightarrow> string promise \<times> call list" where
  "fetchTokenContract this ch itemId calls = perform (read_string ch) (item_tokenContractAddresses itemId) calls"

definition fetchContentURI :: "MotifItem \<Rightarrow> 'tx chain \<Rightarrow> int \<Rightarrow> call list \<Rightarrow> string promise \<times> call list" where
  "fetchContentURI this ch itemId calls = perform (read_string ch) (item_tokenURI itemId) calls"

definition fetchMetadataURI :: "MotifItem \<Rightarrow> 'tx chain \<Rightarrow> int \<Rightarrow> call list \<Rightarrow> string promise \<times> call list" where
  "fetchMetadataURI this ch itemId calls = perform (read_string ch) (item_tokenMetadataURI itemId) calls"

definition fetchCreator :: "MotifItem \<Rightarrow> 'tx chain \<Rightarrow> int \<Rightarrow> call list \<Rightarrow> string promise \<times> call list" where
  "fetchCreator this ch itemId calls = perform (read_string ch) (item_tokenCreators itemId) calls"

definition fetchCurrentBidShares :: "MotifItem \<Rightarrow> 'tx chain \<Rightarrow> int \<Rightarrow> call list \<Rightarrow> BidShares promise \<times> call list" where
  "fetchCurrentBidShares this ch itemId calls = perform (read_bidShares ch) (exchange_bidSharesForToken itemId) calls"

definition fetchCurrentAsk :: "MotifItem \<Rightarrow> 'tx chain \<Rightarrow> int \<Rightarrow> call list \<Rightarrow> Ask promise \<times> call list" where
  "fetchCurrentAsk this ch itemId calls = perform (read_ask ch) (exchange_currentAskForToken itemId) calls"

definition fetchCurrentBidForBidder ::
  "MotifItem \<Rightarrow> 'tx chain \<Rightarrow> int \<Rightarrow> string \<Rightarrow> call list \<Rightarrow> Bid promise \<times> call list" where
  "fetchCurrentBidForBidder this ch itemId bidder' calls =
     perform (read_bid ch) (exchange_bidForTokenBidder itemId bidder') calls"

definition fetchPermitNonce ::
  "MotifItem \<Rightarrow> 'tx chain \<Rightarrow> string \<Rightarrow> int \<Rightarrow> call list \<Rightarrow> int promise \<times> call list" where
  "fetchPermitNonce this ch address itemId calls = perform (read_number ch) (item_permitNonces address itemId) calls"

definition fetchMintWithSigNonce :: "MotifItem \<Rightarrow> 'tx chain \<Rightarrow> string \<Rightarrow> call list \<Rightarrow> int promise \<times> call list" where
  "fetchMintWithSigNonce this ch address calls = perform (read_number ch) (item_mintWithSigNonces address) calls"

definition fetchBalanceOf :: "MotifItem \<Rightarrow> 'tx chain \<Rightarrow> string \<Rightarrow> call list \<Rightarrow> int promise \<times> call list" where
  "fetchBalanceOf this ch owner' calls = perform (read_number ch) (item_balanceOf owner') calls"

definition fetchOwnerOf :: "MotifItem \<Rightarrow> 'tx chain \<Rightarrow> int \<Rightarrow> call list \<Rightarrow> string promise \<times> call list" where
  "fetchOwnerOf this ch itemId calls = perform (read_string ch) (item_ownerOf itemId) calls"

definition fetchItemOfOwnerByIndex ::
  "MotifItem \<Rightarrow> 'tx chain \<Rightarrow> string \<Rightarrow> int \<Rightarrow> call list \<Rightarrow> int promise \<times> call list" where
  "fetchItemOfOwnerByIndex this ch owner' index calls =
     perform (read_number ch) (item_tokenOfOwnerByIndex owner' index) calls"

definition fetchTotalItem :: "MotifItem \<Rightarrow> 'tx chain \<Rightarrow> call list \<Rightarrow> int promise \<times> call list" where
  "fetchTotalItem this ch calls = perform (read_number ch) item_totalSupply calls"

definition fetchItemByIndex :: "MotifItem \<Rightarrow> 'tx chain \<Rightarrow> int \<Rightarrow> call list \<Rightarrow> int promise \<times> call list" where
  "fetchItemByIndex this ch index calls = perform (read_number ch) (item_tokenByIndex index) calls"

definition fetchApproved :: "MotifItem \<Rightarrow> 'tx chain \<Rightarrow> int \<Rightarrow> call list \<Rightarrow> string promise \<times> call list" where
  "fetchApproved this ch itemId calls = perform (read_string ch) (item_getApproved itemId) calls"

definition fetchIsApprovedForAll ::
  "MotifItem \<Rightarrow> 'tx chain \<Rightarrow> string \<Rightarrow> string \<Rightarrow> call list \<Rightarrow> bool promise \<times> call list" where
  "fetchIsApprovedForAll this ch owner' operator calls =
     perform (read_bool ch) (item_isApprovedForAll owner' operator) calls"

subsection \<open>Write methods\<close>

text \<open>Each write method validates inside a \<open>try\<close> block, rejects with the message of
  what the block threw, and otherwise hands the call to the contract.\<close>

definition updateContentURI ::
  "MotifItem \<Rightarrow> 'tx chain \<Rightarrow> int \<Rightarrow> string \<Rightarrow> call list \<Rightarrow> 'tx promise \<times> call list" where
  "updateContentURI this ch itemId tokenURI' calls =
     (case attempt [ensureNotReadOnly this, validateURI tokenURI'] of
        Inl err \<Rightarrow> (Rejected (message err), calls)
      | Inr _ \<Rightarrow> perform (transact ch) (item_updateTokenURI itemId tokenURI') calls)"

definition updateMetadataURI ::
  "MotifItem \<Rightarrow> 'tx chain \<Rightarrow> int \<Rightarrow> string \<Rightarrow> call list \<Rightarrow> 'tx promise \<times> call list" where
  "updateMetadataURI this ch itemId metadataURI' calls =
     (case attempt [ensureNotReadOnly this, validateURI metadataURI'] of
        Inl err \<Rightarrow> (Rejected (message err), calls)
      | Inr _ \<Rightarrow> perform (transact ch) (item_updateTokenMetadataURI itemId metadataURI') calls)"

definition mint ::
  "MotifItem \<Rightarrow> 'tx chain \<Rightarrow> ItemData \<Rightarrow> BidShares \<Rightarrow> call list \<Rightarrow> 'tx promise \<times> call list" where
  "mint this ch itemData bidShares calls =
     (case attempt [ensureNotReadOnly this, validateURI (metadataURI itemData),
                    validateURI (tokenURI itemData),
                    validateBidShares (creator bidShares) (owner bidShares) (prevOwner bidShares)] of
        Inl err \<Rightarrow> (Rejected (message err), calls)
      | Inr _ \<Rightarrow>
          (case perform (estimate ch) (item_estimateGas_mint itemData bidShares) calls of
             (Rejected reason, calls1) \<Rightarrow> (Rejected reason, calls1)
           | (Resolved gasEstimate, calls1) \<Rightarrow>
               (let paddedEstimate = bn_div (gasEstimate * 110) 100 in
                perform (transact ch) (item_mint itemData bidShares (toString paddedEstimate))
                  calls1)))"

text \<open>\<open>mintMultiple\<close> validates the items in order, each with the bid shares at its index;
  reading the shares at an index that the array of shares lacks throws a \<open>TypeError\<close>.\<close>

fun validateItems :: "ItemData list \<Rightarrow> BidShares list \<Rightarrow> error + unit" where
  "validateItems [] shares = Inr ()"
| "validateItems (item # items) [] =
     attempt [validateURI (metadataURI item), validateURI (tokenURI item),
              Inl (Error ''TypeError: bidShares[index] is undefined'')]"
| "validateItems (item # items) (sh # shares) =
     (case attempt [validateURI (metadataURI item), validateURI (tokenURI item),
                    validateBidShares (creator sh) (owner sh) (prevOwner sh)] of
        Inl err \<Rightarrow> Inl err
      | Inr _ \<Rightarrow> validateItems items shares)"

definition mintMultiple ::
  "MotifItem \<Rightarrow> 'tx chain \<Rightarrow> ItemData list \<Rightarrow> BidShares list \<Rightarrow> call list \<Rightarrow>
   'tx promise \<times> call list" where
  "mintMultiple this ch itemData bidShares calls =
     (case attempt [ensureNotReadOnly this, validateItems itemData bidShares] of
        Inl err \<Rightarrow> (Rejected (message err), calls)
      | Inr _ \<Rightarrow>
          (case perform (estimate ch) (item_estimateGas_mintMultiple itemData bidShares) calls of
             (Rejected reason, calls1) \<Rightarrow> (Rejected reason, calls1)
           | (Resolved gasEstimate, calls1) \<Rightarrow>
               (let paddedEstimate = bn_div (gasEstimate * 110) 100 in
                perform (transact ch)
                  (item_mintMultiple itemData bidShares (toString paddedEstimate)) calls1)))"

definition mintWithSig ::
  "MotifItem \<Rightarrow> 'tx chain \<Rightarrow> string \<Rightarrow> ItemData \<Rightarrow> BidShares \<Rightarrow> EIP712Signature \<Rightarrow> call list \<Rightarrow>
   'tx promise \<times> call list" where
  "mintWithSig this ch creator' itemData bidShares sig calls =
     (case attempt [ensureNotReadOnly this, validateURI (metadataURI itemData),
                    validateURI (tokenURI itemData),
                    validateBidShares (creator bidShares) (owner bidShares) (prevOwner bidShares)] of
        Inl err \<Rightarrow> (Rejected (message err), calls)
      | Inr _ \<Rightarrow> perform (transact ch) (item_mintWithSig creator' itemData bidShares sig) calls)"

definition setAsk ::
  "MotifItem \<Rightarrow> 'tx chain \<Rightarrow> int \<Rightarrow> Ask \<Rightarrow> call list \<Rightarrow> 'tx promise \<times> call list" where
  "setAsk this ch itemId ask calls =
     (case attempt [ensureNotReadOnly this] of
        Inl err \<Rightarrow> (Rejected (message err), calls)
      | Inr _ \<Rightarrow> perform (transact ch) (item_setAsk itemId ask) calls)"

definition setBid ::
  "MotifItem \<Rightarrow> 'tx chain \<Rightarrow> int \<Rightarrow> Bid \<Rightarrow> call list \<Rightarrow> 'tx promise \<times> call list" where
  "setBid this ch itemId bid calls =
     (case attempt [ensureNotReadOnly this] of
        Inl err \<Rightarrow> (Rejected (message err), calls)
      | Inr _ \<Rightarrow> perform (transact ch) (item_setBid itemId bid) calls)"

definition removeAsk ::
  "MotifItem \<Rightarrow> 'tx chain \<Rightarrow> int \<Rightarrow> call list \<Rightarrow> 'tx promise \<times> call list" where
  "removeAsk this ch itemId calls =
     (case attempt [ensureNotReadOnly this] of
        Inl err \<Rightarrow> (Rejected (message err), calls)
      | Inr _ \<Rightarrow> perform (transact ch) (item_removeAsk itemId) calls)"

definition removeBid ::
  "MotifItem \<Rightarrow> 'tx chain \<Rightarrow> int \<Rightarrow> call list \<Rightarrow> 'tx promise \<times> call list" where
  "removeBid this ch itemId calls =
     (case attempt [ensureNotReadOnly this] of
        Inl err \<Rightarrow> (Rejected (message err), calls)
      | Inr _ \<Rightarrow> perform (transact ch) (item_removeBid itemId) calls)"

definition acceptBid ::
  "MotifItem \<Rightarrow> 'tx chain \<Rightarrow> int \<Rightarrow> Bid \<Rightarrow> call list \<Rightarrow> 'tx promise \<times> call list" where
  "acceptBid this ch itemId bid calls =
     (case attempt [ensureNotReadOnly this] of
        Inl err \<Rightarrow> (Rejected (message err), calls)
      | Inr _ \<Rightarrow> perform (transact ch) (item_acceptBid itemId bid) calls)"

definition permit ::
  "MotifItem \<Rightarrow> 'tx chain \<Rightarrow> string \<Rightarrow> int \<Rightarrow> EIP712Signature \<Rightarrow> call list \<Rightarrow>
   'tx promise \<times> call list" where
  "permit this ch spender itemId sig calls =
     (case attempt [ensureNotReadOnly this] of
        Inl err \<Rightarrow> (Rejected (message err), calls)
      | Inr _ \<Rightarrow> perform (transact ch) (item_permit spender itemId sig) calls)"

definition revokeApproval ::
  "MotifItem \<Rightarrow> 'tx chain \<Rightarrow> int \<Rightarrow> call list \<Rightarrow> 'tx promise \<times> call list" where
  "revokeApproval this ch itemId calls =
     (case attempt [ensureNotReadOnly this] of
        Inl err \<Rightarrow> (Rejected (message err), calls)
      | Inr _ \<Rightarrow> perform (transact ch) (item_revokeApproval itemId) calls)"

definition burn ::
  "MotifItem \<Rightarrow> 'tx chain \<Rightarrow> int \<Rightarrow> call list \<Rightarrow> 'tx promise \<times> call list" where
  "burn this ch itemId calls =
     (case attempt [ensureNotReadOnly this] of
        Inl err \<Rightarrow> (Rejected (message err), calls)
      | Inr _ \<Rightarrow> perform (transact ch) (item_burn itemId) calls)"

definition approve ::
  "MotifItem \<Rightarrow> 'tx chain \<Rightarrow> string \<Rightarrow> int \<Rightarrow> call list \<Rightarrow> 'tx promise \<times> call list" where
  "approve this ch to itemId calls =
     (case attempt [ensureNotReadOnly this] of
        Inl err \<Rightarrow> (Rejected (message err), calls)
      | Inr _ \<Rightarrow> perform (transact ch) (item_approve to itemId) calls)"

definition setApprovalForAll ::
  "MotifItem \<Rightarrow> 'tx chain \<Rightarrow> string \<Rightarrow> bool \<Rightarrow> call list \<Rightarrow> 'tx promise \<times> call list" where
  "setApprovalForAll this ch operator approved calls =
     (case attempt [ensureNotReadOnly this] of
        Inl err \<Rightarrow> (Rejected (message err), calls)
      | Inr _ \<Rightarrow> perform (transact ch) (item_setApprovalForAll operator approved) calls)"

definition transferFrom ::
  "MotifItem \<Rightarrow> 'tx chain \<Rightarrow> string \<Rightarrow> string \<Rightarrow> int \<Rightarrow> call list \<Rightarrow> 'tx promise \<times> call list" where
  "transferFrom this ch from to itemId calls =
     (case attempt [ensureNotReadOnly this] of
        Inl err \<Rightarrow> (Rejected (message err), calls)
      | Inr _ \<Rightarrow> perform (transact ch) (item_transferFrom from to itemId) calls)"

definition safeTransferFrom ::
  "MotifItem \<Rightarrow> 'tx chain \<Rightarrow> string \<Rightarrow> string \<Rightarrow> int \<Rightarrow> call list \<Rightarrow> 'tx promise \<times> call list" where
  "safeTransferFrom this ch from to itemId calls =
     (case attempt [ensureNotReadOnly this] of
        Inl err \<Rightarrow> (Rejected (message err), calls)
      | Inr _ \<Rightarrow> perform (transact ch) (item_safeTransferFrom from to itemId) calls)"

subsection \<open>Validity of bids and asks\<close>

text \<open>\<open>isValidBid\<close> awaits the contract's verdict on the amount, then the current bid
  shares, and compares the sell-on share with what the creator's share leaves of 100.\<close>

definition isValidBid ::
  "MotifItem \<Rightarrow> 'tx chain \<Rightarrow> int \<Rightarrow> Bid \<Rightarrow> call list \<Rightarrow> bool promise \<times> call list" where
  "isValidBid this ch itemId bid calls =
     (case perform (read_bool ch) (exchange_isValidBid itemId (amount bid)) calls of
        (Rejected reason, calls1) \<Rightarrow> (Rejected reason, calls1)
      | (Resolved isAmountValid, calls1) \<Rightarrow>
          (case Decimal_new 100 of
             Inl err \<Rightarrow> (Rejected (message err), calls1)
           | Inr decimal100 \<Rightarrow>
               (case fetchCurrentBidShares this ch itemId calls1 of
                  (Rejected reason, calls2) \<Rightarrow> (Rejected reason, calls2)
                | (Resolved currentBidShares, calls2) \<Rightarrow>
                    (let isSellOnShareValid =
                           (value (sellOnShare bid) \<le>
                              value decimal100 - value (creator currentBidShares))
                     in (Resolved (isAmountValid \<and> isSellOnShareValid), calls2)))))"

definition isValidAsk ::
  "MotifItem \<Rightarrow> 'tx chain \<Rightarrow> int \<Rightarrow> Ask \<Rightarrow> call list \<Rightarrow> bool promise \<times> call list" where
  "isValidAsk this ch itemId ask calls =
     perform (read_bool ch) (exchange_isValidBid itemId (amount ask)) calls"

text \<open>The message of \<open>ensureNotReadOnly\<close>, and example inputs: the bid shares of an
  item whose creator holds 10 percent, a bid with a given sell-on share, a chain that
  accepts everything, and a wrapper built from a provider.\<close>

definition readOnly_message :: string where
  "readOnly_message =
     ''ensureNotReadOnly: readOnly Motif instance cannot call contract methods that require a signer.''"

definition example_shares :: BidShares where
  "example_shares = \<lparr>owner = \<lparr>value = 90 * 10 ^ 18\<rparr>, prevOwner = \<lparr>value = 0\<rparr>,
                      creator = \<lparr>value = 10 * 10 ^ 18\<rparr>\<rparr>"

definition example_bid :: "int \<Rightarrow> Bid" where
  "example_bid v = \<lparr>currency = ''0xC'', amount = 200, bidder = ''0xB'', recipient = ''0xR'',
                    sellOnShare = \<lparr>value = v\<rparr>\<rparr>"

definition example_chain :: "nat chain" where
  "example_chain =
     \<lparr>transact = (\<lambda>c. Inr 1), estimate = (\<lambda>c. Inr 21000), read_string = (\<lambda>c. Inr ''0x''),
      read_number = (\<lambda>c. Inr 0), read_bool = (\<lambda>c. Inr True),
      read_bidShares = (\<lambda>c. Inr example_shares),
      read_ask = (\<lambda>c. Inr \<lparr>currency = ''0xC'', amount = 100\<rparr>),
      read_bid = (\<lambda>c. Inr (example_bid 0))\<rparr>"

definition example_item_wrapper :: MotifItem where
  "example_item_wrapper =
     \<lparr>chainId = 7018, itemAddress = ''0xItem'', itemExchangeAddress = ''0xExchange'',
      signerOrProvider = Provider ''rpc'', readOnly = True\<rparr>"

section \<open>Properties of printing and of the byte-string functions\<close>

lemma digit_char_inj: "a < 10 \<Longrightarrow> b < 10 \<Longrightarrow> digit_char a = digit_char b \<Longrightarrow> a = b"
  unfolding digit_char_def
  by (simp add: nth_eq_iff_index_eq)

lemma digit_char_not_minus: "d < 10 \<Longrightarrow> digit_char d \<noteq> CHR ''-''"
  unfolding digit_char_def
  by (cases d rule: nat.exhaust) (auto simp: less_Suc_eq numeral_eq_Suc)

lemma digit_val_char: "d < 10 \<Longrightarrow> digit_val (digit_char d) = d"
  unfolding digit_char_def digit_val_def
  by (cases d rule: nat.exhaust) (auto simp: less_Suc_eq numeral_eq_Suc)

lemma nat_of_dec_of_nat: "nat_of_dec (dec_of_nat n) = n"
proof (induction n rule: dec_of_nat.induct)
  case (1 n)
  show ?case
  proof (cases "n < 10")
    case True
    then show ?thesis
      by (simp add: dec_of_nat.simps [of n] nat_of_dec_def digit_val_char)
  next
    case False
    with 1 have "nat_of_dec (dec_of_nat (n div 10)) = n div 10"
      by simp
    with False show ?thesis
      by (simp add: dec_of_nat.simps [of n] nat_of_dec_def digit_val_char)
  qed
qed

lemma dec_of_nat_inj: "dec_of_nat m = dec_of_nat n \<Longrightarrow> m = n"
  by (metis nat_of_dec_of_nat)

lemma hd_dec_of_nat: "\<exists>d cs. d < 10 \<and> dec_of_nat n = digit_char d # cs"
proof (induction n rule: dec_of_nat.induct)
  case (1 n)
  show ?case
  proof (cases "n < 10")
    case True
    then show ?thesis
      by (subst dec_of_nat.simps) auto
  next
    case False
    with 1 obtain d cs where "d < 10" "dec_of_nat (n div 10) = digit_char d # cs"
      by auto
    with False show ?thesis
      by (subst dec_of_nat.simps) auto
  qed
qed

text \<open>Two big numbers print alike only when they are equal, so the comparison of the
  printed sums in \<open>validateBidShares\<close> is a comparison of the sums.\<close>

lemma toString_inj: "(toString i = toString j) = (i = j)"
proof
  assume eq: "toString i = toString j"
  obtain d cs where d: "d < 10" "dec_of_nat (nat i) = digit_char d # cs"
    using hd_dec_of_nat by blast
  obtain e ds where e: "e < 10" "dec_of_nat (nat j) = digit_char e # ds"
    using hd_dec_of_nat by blast
  show "i = j"
  proof (cases "i < 0")
    case True
    show ?thesis
    proof (cases "j < 0")
      case True
      with \<open>i < 0\<close> eq have "nat (- i) = nat (- j)"
        by (auto simp: toString_def dest: dec_of_nat_inj)
      with True \<open>i < 0\<close> show ?thesis
        by simp
    next
      case False
      with \<open>i < 0\<close> eq e digit_char_not_minus [of e] show ?thesis
        by (auto simp: toString_def)
    qed
  next
    case False
    show ?thesis
    proof (cases "j < 0")
      case True
      with \<open>\<not> i < 0\<close> eq d digit_char_not_minus [of d] show ?thesis
        by (auto simp: toString_def)
    next
      case False
      with \<open>\<not> i < 0\<close> eq have "nat i = nat j"
        by (auto simp: toString_def dest: dec_of_nat_inj)
      with False \<open>\<not> i < 0\<close> show ?thesis
        by simp
    qed
  qed
qed simp

lemma Decimal_new_100: "Decimal_new 100 = Inr \<lparr>value = 100 * 10 ^ 18\<rparr>"
  by (simp add: Decimal_new_def)

lemma toString_decimal100: "toString 100000000000000000000 = ''100000000000000000000''"
  by (simp add: toString_def dec_of_nat.simps digit_char_def)

lemma validateBidShares_eq:
  "validateBidShares c ow p =
     (if value c + value ow + value p = 100 * 10 ^ 18 then Inr ()
      else Inl (Error (''Invariant failed: The BidShares sum to '' @
                       toString (value c + value ow + value p) @
                       '', but they must sum to 100000000000000000000'')))"
proof -
  define s where "s = value c + value ow + value p"
  have cmp: "(toString s \<noteq> toString 100000000000000000000) = (s \<noteq> 100000000000000000000)"
    by (simp add: toString_inj)
  have "validateBidShares c ow p =
          (if toString s \<noteq> toString 100000000000000000000
           then Inl (invariant_false (''The BidShares sum to '' @ toString s @
                  '', but they must sum to '' @ toString 100000000000000000000))
           else Inr ())"
    by (simp add: validateBidShares_def Decimal_new_100 s_def Let_def)
  also have "\<dots> = (if s = 100 * 10 ^ 18 then Inr ()
      else Inl (Error (''Invariant failed: The BidShares sum to '' @ toString s @
                       '', but they must sum to 100000000000000000000'')))"
    unfolding cmp by (simp add: toString_decimal100 invariant_false_def)
  finally show ?thesis
    by (simp add: s_def)
qed

lemma take8_prefix: "(take 8 uri = ''https://'') = prefix ''https://'' uri"
proof
  assume "take 8 uri = ''https://''"
  then have "uri = ''https://'' @ drop 8 uri"
    by (metis append_take_drop_id)
  then show "prefix ''https://'' uri"
    by (metis prefixI)
next
  assume "prefix ''https://'' uri"
  then obtain r where "uri = ''https://'' @ r"
    by (auto simp: prefix_def)
  then show "take 8 uri = ''https://''"
    by simp
qed

lemma validateURI_eq:
  "validateURI uri =
     (if prefix ''https://'' uri then Inr ()
      else Inl (Error (''Invariant failed: '' @ uri @ '' must begin with `https://`'')))"
  by (simp add: validateURI_def match_https_def invariant_false_def take8_prefix)

lemma isHexString_0x: "isHexString (CHR ''0'' # CHR ''x'' # ds) = list_all isHexDigit ds"
  by (simp add: isHexString_def)

lemma hexChar_isHexDigit: "k < 16 \<Longrightarrow> isHexDigit (HexCharacters ! k)"
proof -
  assume "k < 16"
  moreover have "length HexCharacters = 16"
    by (simp add: HexCharacters_def)
  ultimately have "HexCharacters ! k \<in> set HexCharacters"
    by (metis nth_mem)
  moreover have "set HexCharacters \<subseteq> set ''0123456789ABCDEFabcdef''"
    by (simp add: HexCharacters_def)
  ultimately show ?thesis
    unfolding isHexDigit_def by blast
qed

lemma nibble_int_bound: "nat ((x::int) AND 15) < 16"
proof -
  have "x AND 15 \<le> 15"
    by (rule AND_upper2) simp
  then show ?thesis
    by arith
qed

lemma hexByte_digits: "0 \<le> v \<Longrightarrow> v < 256 \<Longrightarrow> list_all isHexDigit (hexByte v)"
  by (simp add: hexByte_def hexChar_isHexDigit nibble_int_bound)

lemma length_hexBytes: "length (concat (map hexByte bs)) = 2 * length bs"
  by (induction bs) (simp_all add: hexByte_def)

lemma hexBytes_digits: "isBytes bs \<Longrightarrow> list_all isHexDigit (concat (map hexByte bs))"
  by (induction bs) (simp_all add: isBytes_def hexByte_digits)

lemma isHexString_hexBytes:
  "isBytes bs \<Longrightarrow> isHexString (CHR ''0'' # CHR ''x'' # concat (map hexByte bs))"
  by (simp add: isHexString_0x hexBytes_digits)

lemma validateBytes32_Bytes:
  "validateBytes32 (Bytes bs) =
     (if \<not> isBytes bs then Inl (Error ''invalid hexlify value'')
      else if length bs = 32 then Inr ()
      else Inl (Error ''Invariant failed: value is not a length 32 byte array''))"
  by (simp add: validateBytes32_def hexlify_def hexDataLength_def isHexString_hexBytes
      length_hexBytes invariant_false_def)

lemma validateBytes32_Str:
  "(validateBytes32 (Str s) = Inr ()) = (isHexString s \<and> length s = 66)"
  by (auto simp: validateBytes32_def hexDataLength_def isHexString_def)

section \<open>Properties of the decimal constructors\<close>

lemma toFixed4_nonneg:
  "0 \<le> x \<Longrightarrow> x < 10 ^ 21 \<Longrightarrow> toFixed4 x = of_int \<lfloor>x * 10 ^ 4 + 1 / 2\<rfloor> / 10 ^ 4"
  by (simp add: toFixed4_def)

lemma Decimal_new_scaled:
  assumes "0 \<le> n"
  shows "Decimal_new (of_int n / 10 ^ 4) = Inr \<lparr>value = n * 10 ^ 14\<rparr>"
proof -
  have "(of_int n / 10 ^ 4) * (10::real) ^ 18 = of_int (n * 10 ^ 14)"
    by simp
  then have "\<lfloor>(of_int n / 10 ^ 4) * (10::real) ^ 18\<rfloor> = n * 10 ^ 14"
    by (metis floor_of_int)
  moreover have "\<not> (real_of_int n / 10 ^ 4 < 0)"
    using assms by (simp add: divide_less_0_iff)
  ultimately show ?thesis
    unfolding Decimal_new_def by simp
qed

lemma makeDecimal_nonneg:
  assumes "0 \<le> x" "x < 10 ^ 21"
  shows "makeDecimal x = Inr \<lparr>value = \<lfloor>x * 10 ^ 4 + 1 / 2\<rfloor> * 10 ^ 14\<rparr>"
proof -
  have "0 \<le> \<lfloor>x * 10 ^ 4 + 1 / 2\<rfloor>"
    using assms(1) by simp
  then show ?thesis
    unfolding makeDecimal_def toFixed4_nonneg [OF assms] by (rule Decimal_new_scaled)
qed

lemma toFixed4_four_digits:
  assumes "0 \<le> x" "x < 10 ^ 21" "x * 10 ^ 4 \<in> \<int>"
  shows "toFixed4 x = x"
proof -
  from assms(3) obtain k :: int where k: "x * 10 ^ 4 = of_int k"
    by (auto elim: Ints_cases)
  have "\<lfloor>real_of_int k + 1 / 2\<rfloor> = k"
    by linarith
  then have "toFixed4 x = of_int k / 10 ^ 4"
    unfolding toFixed4_nonneg [OF assms(1,2)] k by simp
  also have "\<dots> = x"
    using k by (metis nonzero_mult_div_cancel_right power_not_zero zero_neq_numeral)
  finally show ?thesis .
qed

lemma scale_cancel:
  "((na::int) * 10 ^ 14 + nb * 10 ^ 14 + nc * 10 ^ 14 = 100 * 10 ^ 18) = (na + nb + nc = 10 ^ 6)"
proof -
  have "na * 10 ^ 14 + nb * 10 ^ 14 + nc * 10 ^ 14 = (na + nb + nc) * 10 ^ 14"
    by (simp only: distrib_right)
  moreover have "(100::int) * 10 ^ 18 = 10 ^ 6 * 10 ^ 14"
    by simp
  moreover have "((na + nb + nc) * 10 ^ 14 = 10 ^ 6 * (10::int) ^ 14) = (na + nb + nc = 10 ^ 6)"
    by (simp only: mult_cancel_right) simp
  ultimately show ?thesis
    by (simp only:)
qed

lemma ten_thousandths_sum:
  "(na + nb + nc = (10::int) ^ 6) =
   (real_of_int na / 10 ^ 4 + of_int nb / 10 ^ 4 + of_int nc / 10 ^ 4 = (100::real))"
proof -
  have "(na + nb + nc = (10::int) ^ 6) = (real_of_int (na + nb + nc) = 10 ^ 6)"
    by (simp only: of_int_eq_numeral_power_cancel_iff)
  also have "\<dots> = (real_of_int na + of_int nb + of_int nc = 100 * 10 ^ 4)"
    by simp
  also have "\<dots> = ((real_of_int na + of_int nb + of_int nc) / 10 ^ 4 = 100)"
    by (simp only: divide_eq_eq) simp
  also have "\<dots> = (real_of_int na / 10 ^ 4 + of_int nb / 10 ^ 4 + of_int nc / 10 ^ 4 = (100::real))"
    by (simp only: add_divide_distrib)
  finally show ?thesis .
qed

lemma constructBidShares_success:
  assumes "0 \<le> a" "0 \<le> b" "0 \<le> c" "a < 10 ^ 21" "b < 10 ^ 21" "c < 10 ^ 21"
  shows "(\<exists>s. constructBidShares a b c = Inr s) = (toFixed4 a + toFixed4 b + toFixed4 c = 100)"
proof -
  define na where "na = \<lfloor>a * 10 ^ 4 + 1 / 2\<rfloor>"
  define nb where "nb = \<lfloor>b * 10 ^ 4 + 1 / 2\<rfloor>"
  define nc where "nc = \<lfloor>c * 10 ^ 4 + 1 / 2\<rfloor>"
  have ma: "makeDecimal a = Inr \<lparr>value = na * 10 ^ 14\<rparr>"
    unfolding na_def using assms by (intro makeDecimal_nonneg)
  have mb: "makeDecimal b = Inr \<lparr>value = nb * 10 ^ 14\<rparr>"
    unfolding nb_def using assms by (intro makeDecimal_nonneg)
  have mc: "makeDecimal c = Inr \<lparr>value = nc * 10 ^ 14\<rparr>"
    unfolding nc_def using assms by (intro makeDecimal_nonneg)
  have ta: "toFixed4 a = of_int na / 10 ^ 4"
    unfolding na_def using assms by (intro toFixed4_nonneg)
  have tb: "toFixed4 b = of_int nb / 10 ^ 4"
    unfolding nb_def using assms by (intro toFixed4_nonneg)
  have tc: "toFixed4 c = of_int nc / 10 ^ 4"
    unfolding nc_def using assms by (intro toFixed4_nonneg)
  have "(\<exists>s. constructBidShares a b c = Inr s) =
          (na * 10 ^ 14 + nb * 10 ^ 14 + nc * 10 ^ 14 = 100 * 10 ^ 18)"
    by (simp add: constructBidShares_def ma mb mc validateBidShares_eq)
  also have "\<dots> = (na + nb + nc = 10 ^ 6)"
    by (rule scale_cancel)
  also have "\<dots> = (toFixed4 a + toFixed4 b + toFixed4 c = 100)"
    unfolding ta tb tc by (rule ten_thousandths_sum)
  finally show ?thesis .
qed

lemma makeDecimal_small_up: "makeDecimal (1 / 32768) = Inr \<lparr>value = 0\<rparr>"
  by (simp add: makeDecimal_def toFixed4_def Decimal_new_def)

lemma makeDecimal_near_100: "makeDecimal (1638399 / 16384) = Inr \<lparr>value = 99999900000000000000\<rparr>"
  by (simp add: makeDecimal_def toFixed4_def Decimal_new_def)

lemma toString_99_9999: "toString 99999900000000000000 = ''99999900000000000000''"
  by (simp add: toString_def dec_of_nat.simps digit_char_def)

lemma makeDecimal_sixth_digits: "makeDecimal (1 / 16384) = Inr \<lparr>value = 100000000000000\<rparr>"
  by (simp add: makeDecimal_def toFixed4_def Decimal_new_def)

lemma makeDecimal_zero: "makeDecimal 0 = Inr \<lparr>value = 0\<rparr>"
  by (simp add: makeDecimal_def toFixed4_def Decimal_new_def)

lemma constructBid_sixth_digits:
  "constructBid Some ''0xC'' 200 ''0xB'' ''0xR'' (1 / 16384) =
     Inr \<lparr>currency = ''0xC'', amount = 200, bidder = ''0xB'', recipient = ''0xR'',
          sellOnShare = \<lparr>value = 100000000000000\<rparr>\<rparr>"
  by (simp add: constructBid_def validateAndParseAddress_def makeDecimal_sixth_digits)

lemma constructBidShares_sixth_digits:
  "constructBidShares (1 / 16384) 0 (1638399 / 16384) =
     Inr \<lparr>owner = \<lparr>value = 0\<rparr>, prevOwner = \<lparr>value = 99999900000000000000\<rparr>,
          creator = \<lparr>value = 100000000000000\<rparr>\<rparr>"
  by (simp add: constructBidShares_def makeDecimal_sixth_digits makeDecimal_zero
      makeDecimal_near_100 validateBidShares_eq)

section \<open>Properties of hashing and verification\<close>

lemma strip_0x: "strip_ws_0x (CHR ''0'' # CHR ''x'' # cs) = strip_ws_0x cs"
  by (simp add: isWhiteSpace_def)

lemma hex_toBits_0x: "hex_toBits (CHR ''0'' # CHR ''x'' # s) = hex_toBits s"
  by (simp only: hex_toBits_def strip_0x)

lemma length_sha_block: "length (sha_block st m) = 8"
  by (simp add: sha_block_def Let_def)

lemma length_foldl_sha_block: "blocks \<noteq> [] \<Longrightarrow> length (foldl sha_block h blocks) = 8"
  by (induction blocks rule: rev_induct) (simp_all add: length_sha_block)

lemma chunks_nonempty: "0 < n \<Longrightarrow> xs \<noteq> [] \<Longrightarrow> chunks n xs \<noteq> []"
  by (subst chunks.simps) simp

lemma sha_pad_nonempty: "sha_pad bs \<noteq> []"
  by (simp add: sha_pad_def Let_def)

lemma length_sha256_hash: "length (sha256_hash bs) = 8"
  unfolding sha256_hash_def
  by (rule length_foldl_sha_block) (simp add: chunks_nonempty sha_pad_nonempty)

lemma hexChar_isLowerHex: "k < 16 \<Longrightarrow> isLowerHex (HexCharacters ! k)"
proof -
  assume "k < 16"
  moreover have "length HexCharacters = 16"
    by (simp add: HexCharacters_def)
  ultimately have "HexCharacters ! k \<in> set HexCharacters"
    by (metis nth_mem)
  then show ?thesis
    by (simp add: isLowerHex_def HexCharacters_def)
qed

lemma nibble_bound: "unat ((w :: 32 word) AND 15) < 16"
proof -
  have "unat (w AND 15) \<le> unat (15 :: 32 word)"
    by (rule word_and_le1 [THEN word_le_nat_alt [THEN iffD1]])
  then show ?thesis
    by simp
qed

lemma length_hexWord: "length (hexWord w) = 8"
  by (simp add: hexWord_def)

lemma hexWord_lower: "list_all isLowerHex (hexWord w)"
  by (simp add: hexWord_def list_all_iff hexChar_isLowerHex nibble_bound)

lemma length_hex_fromBits: "length (hex_fromBits arr) = 8 * length arr"
  by (induction arr) (simp_all add: hex_fromBits_def length_hexWord)

lemma hex_fromBits_lower: "list_all isLowerHex (hex_fromBits arr)"
  by (induction arr) (simp_all add: hex_fromBits_def hexWord_lower)

lemma sha256FromBuffer_format:
  "\<exists>ds. sha256FromBuffer b = CHR ''0'' # CHR ''x'' # ds \<and> length ds = 64 \<and> list_all isLowerHex ds"
  by (simp add: sha256FromBuffer_def Let_def length_hex_fromBits length_sha256_hash
      hex_fromBits_lower)

lemma isBytes_uint: "isBytes (map uint (buffer :: 8 word list))"
proof -
  have "uint b < 256" for b :: "8 word"
    using uint_bounded [of b] by simp
  then show ?thesis
    by (simp add: isBytes_def list_all_iff)
qed

lemma Buffer_toString_hex_eq: "Buffer_toString_hex buffer = concat (map hexByte (map uint buffer))"
  by (simp add: Buffer_toString_hex_def comp_def)

lemma isHexString_Buffer:
  "isHexString (CHR ''0'' # CHR ''x'' # Buffer_toString_hex buffer)"
  unfolding Buffer_toString_hex_eq by (rule isHexString_hexBytes) (rule isBytes_uint)

lemma isLowerHex_not_upper:
  "isLowerHex c \<Longrightarrow>
     (48::nat) \<le> of_char c \<and> of_char c \<le> (102::nat) \<and>
     \<not> ((65::nat) \<le> of_char c \<and> of_char c \<le> (90::nat))"
  by (auto simp: isLowerHex_def)

lemma isLowerHex_isHexDigit: "isLowerHex c \<Longrightarrow> isHexDigit c"
  by (auto simp: isLowerHex_def isHexDigit_def)

lemma toLowerCase_lower: "list_all isLowerHex ds \<Longrightarrow> toLowerCase ds = ds"
  by (induction ds) (auto simp: toLowerCase_def Let_def dest!: isLowerHex_not_upper)

lemma toLowerCase_0x: "toLowerCase (CHR ''0'' # CHR ''x'' # ds) = CHR ''0'' # CHR ''x'' # toLowerCase ds"
  by (simp add: toLowerCase_def)

lemma hexlify_sha256FromBuffer: "hexlify (Str (sha256FromBuffer b)) = Inr (sha256FromBuffer b)"
proof -
  obtain ds where ds: "sha256FromBuffer b = CHR ''0'' # CHR ''x'' # ds" "length ds = 64"
    "list_all isLowerHex ds"
    using sha256FromBuffer_format by blast
  have "list_all isHexDigit ds"
    using ds(3) by (simp add: list_all_iff isLowerHex_isHexDigit)
  then show ?thesis
    unfolding ds(1) by (simp add: hexlify_def isHexString_0x ds(2) toLowerCase_0x
        toLowerCase_lower [OF ds(3)])
qed

lemma sha256FromBuffer_length: "length (sha256FromBuffer b) = 66"
  using sha256FromBuffer_format [of b] by auto

lemma isURIHashVerified_cases:
  "isURIHashVerified get uri h t rs =
     (case validateURI uri of
        Inl err \<Rightarrow> (Rejected (message err), rs)
      | Inr _ \<Rightarrow>
          (case get uri t of
             Inl msg \<Rightarrow> (Rejected msg, rs @ [uri])
           | Inr data \<Rightarrow>
               (case hexlify h of
                  Inl err \<Rightarrow> (Rejected (message err), rs @ [uri])
                | Inr n \<Rightarrow> (Resolved (sha256FromBuffer data = n), rs @ [uri]))))"
  by (simp add: isURIHashVerified_def Let_def split: sum.splits)

lemma isItemDataVerified_cases:
  "isItemDataVerified get d t rs =
     (case isURIHashVerified get (tokenURI d) (contentHash d) t rs of
        (Rejected r, rs1) \<Rightarrow> (Rejected r, rs1)
      | (Resolved b1, rs1) \<Rightarrow>
          (case isURIHashVerified get (metadataURI d) (metadataHash d) t rs1 of
             (Rejected r, rs2) \<Rightarrow> (Rejected r, rs2)
           | (Resolved b2, rs2) \<Rightarrow> (Resolved (b1 \<and> b2), rs2)))"
  by (simp add: isItemDataVerified_def)

lemma asItemData_fields:
  "tokenURI (asItemData d) = tokenURI d" "metadataURI (asItemData d) = metadataURI d"
  "contentHash (asItemData d) = contentHash d" "metadataHash (asItemData d) = metadataHash d"
  by (simp_all add: asItemData_def)

lemma isAvatarDataVerified_eq:
  "isAvatarDataVerified get av t rs = isItemDataVerified get (asItemData av) t rs"
  unfolding isAvatarDataVerified_def isItemDataVerified_def asItemData_fields ..

lemma isSpaceDataVerified_eq:
  "isSpaceDataVerified get sp t rs = isItemDataVerified get (asItemData sp) t rs"
  unfolding isSpaceDataVerified_def isItemDataVerified_def asItemData_fields ..

lemma isLandDataVerified_eq:
  "isLandDataVerified get la t rs = isItemDataVerified get (asItemData la) t rs"
  unfolding isLandDataVerified_def isItemDataVerified_def asItemData_fields ..

lemma Buffer_abc: "Buffer_toString_hex [0x61, 0x62, 0x63] = ''616263''"
  by (simp add: Buffer_toString_hex_def hexByte_def HexCharacters_def drop_bit_eq_div)

section \<open>Properties of the wrapper\<close>

lemma isValidBid_cases:
  "isValidBid this ch itemId bid calls =
     (case read_bool ch (exchange_isValidBid itemId (amount bid)) of
        Inl reason \<Rightarrow> (Rejected reason, calls @ [exchange_isValidBid itemId (amount bid)])
      | Inr isAmountValid \<Rightarrow>
          (case read_bidShares ch (exchange_bidSharesForToken itemId) of
             Inl reason \<Rightarrow>
               (Rejected reason,
                calls @ [exchange_isValidBid itemId (amount bid), exchange_bidSharesForToken itemId])
           | Inr currentBidShares \<Rightarrow>
               (Resolved (isAmountValid \<and>
                    value (sellOnShare bid) \<le> 100 * 10 ^ 18 - value (creator currentBidShares)),
                calls @ [exchange_isValidBid itemId (amount bid), exchange_bidSharesForToken itemId])))"
  by (simp add: isValidBid_def perform_def fetchCurrentBidShares_def Decimal_new_100 Let_def
      split: sum.splits)

lemma toFixed4_nonneg_ge: "0 \<le> x \<Longrightarrow> 0 \<le> toFixed4 x"
  by (simp add: toFixed4_def)

lemma makeDecimal_defined: "0 \<le> x \<Longrightarrow> \<exists>d. makeDecimal x = Inr d"
  using toFixed4_nonneg_ge [of x] by (simp add: makeDecimal_def Decimal_new_def)

lemma makeDecimal_90_1: "makeDecimal (901 / 10) = Inr \<lparr>value = 90100000000000000000\<rparr>"
  by (simp add: makeDecimal_def toFixed4_def Decimal_new_def)

lemma MotifItem_new_Provider:
  "MotifItem_new getAddress addresses (Provider p) cid ia iea = Inr this \<Longrightarrow> readOnly this"
  by (auto simp: MotifItem_new_def Let_def split: if_splits option.splits sum.splits prod.splits)

lemma MotifItem_new_Signer:
  "MotifItem_new getAddress addresses (Signer k) cid ia iea = Inr this \<Longrightarrow> \<not> readOnly this"
  by (auto simp: MotifItem_new_def Let_def split: if_splits option.splits sum.splits prod.splits)

lemma attempt_readOnly:
  "readOnly this \<Longrightarrow> attempt (ensureNotReadOnly this # vs) = Inl (Error readOnly_message)"
  by (simp add: ensureNotReadOnly_def readOnly_message_def)

lemma MotifItem_new_example:
  "MotifItem_new Some (\<lambda>n. Some (''0xItem'', ''0xExchange'')) (Provider ''rpc'') 7018 None None =
     Inr example_item_wrapper"
  by (simp add: MotifItem_new_def truthy_def chainIdToNetworkName_def example_item_wrapper_def)

lemma signer_can_write:
  "setAsk (example_item_wrapper\<lparr>signerOrProvider := Signer ''key'', readOnly := False\<rparr>)
     example_chain 0 \<lparr>currency = ''0xC'', amount = 100\<rparr> [] =
     (Resolved 1, [item_setAsk 0 \<lparr>currency = ''0xC'', amount = 100\<rparr>])"
  by (simp add: setAsk_def ensureNotReadOnly_def perform_def example_chain_def
      example_item_wrapper_def)

section \<open>The claims\<close>

text \<open>
  C1. For every three decimal values, \<open>validateBidShares\<close> succeeds exactly when the sum of
  the three scaled integers is \<open>100 * 10^18\<close>, with no tolerance; on every other sum it
  fails with an error whose message carries the actual sum and the expected sum
  \<open>100000000000000000000\<close>.
\<close>

theorem validateBidShares_strict:
  "validateBidShares c ow p =
     (if value c + value ow + value p = 100 * 10 ^ 18 then Inr ()
      else Inl (Error (''Invariant failed: The BidShares sum to '' @
                       toString (value c + value ow + value p) @
                       '', but they must sum to 100000000000000000000'')))"
  by (rule validateBidShares_eq)

theorem validateBidShares_strict_witness:
  "validateBidShares \<lparr>value = 10 * 10 ^ 18\<rparr> \<lparr>value = 70 * 10 ^ 18\<rparr> \<lparr>value = 10 * 10 ^ 18\<rparr> =
     Inl (Error ''Invariant failed: The BidShares sum to 90000000000000000000, but they must sum to 100000000000000000000'') \<and>
   validateBidShares \<lparr>value = 333333 * 10 ^ 14\<rparr> \<lparr>value = 333333 * 10 ^ 14\<rparr>
     \<lparr>value = 333334 * 10 ^ 14\<rparr> = Inr () \<and>
   validateBidShares \<lparr>value = 100 * 10 ^ 18\<rparr> \<lparr>value = 1\<rparr> \<lparr>value = 0\<rparr> \<noteq> Inr ()"
  by (simp add: validateBidShares_strict toString_def dec_of_nat.simps digit_char_def)

text \<open>
  C6. For every string, \<open>validateURI\<close> succeeds exactly when the string begins with the
  literal prefix \<open>https://\<close>; every other string fails with the invariant error that names
  the string.
\<close>

theorem validateURI_prefix:
  "validateURI uri =
     (if prefix ''https://'' uri then Inr ()
      else Inl (Error (''Invariant failed: '' @ uri @ '' must begin with `https://`'')))"
  by (rule validateURI_eq)

theorem validateURI_prefix_witness:
  "validateURI ''https://example.com'' = Inr () \<and>
   validateURI ''http://example.com'' =
     Inl (Error ''Invariant failed: http://example.com must begin with `https://`'')"
  by (simp add: validateURI_prefix)

text \<open>
  C7. \<open>validateBytes32\<close> succeeds on a byte array exactly when it is an array of 32 bytes,
  and on the 0x-prefixed hex string of a byte array exactly when the array has 32 bytes;
  a hex string of \<open>2 * n\<close> digits, in either case of letters, is accepted exactly when
  \<open>n = 32\<close>, and a string that is not hex data of whole bytes is never accepted. So inputs
  of 31 or 33 bytes fail in both encodings.
\<close>

theorem validateBytes32_iff_32_bytes:
  "(validateBytes32 (Bytes bs) = Inr ()) = (isBytes bs \<and> length bs = 32) \<and>
   (isBytes bs \<longrightarrow>
      (validateBytes32 (Str (''0x'' @ concat (map hexByte bs))) = Inr ()) = (length bs = 32)) \<and>
   (isHexString s \<and> length s = 2 + 2 * n \<longrightarrow> (validateBytes32 (Str s) = Inr ()) = (n = 32)) \<and>
   (\<not> isHexString s \<or> odd (length s) \<longrightarrow> validateBytes32 (Str s) \<noteq> Inr ())"
proof (intro conjI impI)
  show "(validateBytes32 (Bytes bs) = Inr ()) = (isBytes bs \<and> length bs = 32)"
    by (simp add: validateBytes32_Bytes)
next
  assume "isBytes bs"
  then show "(validateBytes32 (Str (''0x'' @ concat (map hexByte bs))) = Inr ()) = (length bs = 32)"
    by (auto simp: validateBytes32_Str isHexString_hexBytes length_hexBytes)
next
  assume "isHexString s \<and> length s = 2 + 2 * n"
  then show "(validateBytes32 (Str s) = Inr ()) = (n = 32)"
    by (auto simp: validateBytes32_Str)
next
  assume "\<not> isHexString s \<or> odd (length s)"
  then show "validateBytes32 (Str s) \<noteq> Inr ()"
    by (auto simp: validateBytes32_Str)
qed

theorem validateBytes32_iff_32_bytes_witness:
  "validateBytes32 (Bytes (replicate 32 171)) = Inr () \<and>
   validateBytes32 (Str (''0x'' @ concat (map hexByte (replicate 32 171)))) = Inr () \<and>
   validateBytes32 (Str (''0x'' @ concat (replicate 32 ''Ab''))) = Inr () \<and>
   validateBytes32 (Bytes (replicate 31 171)) \<noteq> Inr () \<and>
   validateBytes32 (Bytes (replicate 33 171)) \<noteq> Inr () \<and>
   validateBytes32 (Str (''0x'' @ concat (replicate 33 ''Ab''))) \<noteq> Inr () \<and>
   validateBytes32 (Str ''0xabc'') \<noteq> Inr ()"
proof -
  have b: "isBytes (replicate n 171)" for n
    by (simp add: isBytes_def list_all_iff)
  have h: "isHexString (''0x'' @ concat (replicate n ''Ab''))" for n
    by (induction n) (simp_all add: isHexString_0x isHexDigit_def)
  have l: "length (''0x'' @ concat (replicate n ''Ab'')) = 2 + 2 * n" for n
    by (induction n) simp_all
  show ?thesis
    using validateBytes32_iff_32_bytes [of "replicate 32 171" "''0x'' @ concat (replicate 32 ''Ab'')" 32]
      validateBytes32_iff_32_bytes [of "replicate 31 171" "''0x'' @ concat (replicate 33 ''Ab'')" 33]
      validateBytes32_iff_32_bytes [of "replicate 33 171" "''0xabc''" 0]
      b h l
    by simp
qed

text \<open>
  C2 (as amended). For non-negative shares below \<open>10^11\<close>, \<open>constructBidShares\<close> succeeds
  exactly when the three shares, each rounded to four fractional digits, sum to \<open>100\<close>;
  in particular it succeeds when the shares have at most four fractional digits and sum
  to \<open>100\<close>. A real-valued sum of \<open>100\<close> before rounding is not enough.
\<close>

theorem constructBidShares_rounded_sum:
  assumes "0 \<le> a" "0 \<le> b" "0 \<le> c" "a < 10 ^ 11" "b < 10 ^ 11" "c < 10 ^ 11"
  shows "(\<exists>s. constructBidShares a b c = Inr s) = (toFixed4 a + toFixed4 b + toFixed4 c = 100) \<and>
         (a * 10 ^ 4 \<in> \<int> \<and> b * 10 ^ 4 \<in> \<int> \<and> c * 10 ^ 4 \<in> \<int> \<and> a + b + c = 100 \<longrightarrow>
            (\<exists>s. constructBidShares a b c = Inr s))"
proof -
  have big: "a < 10 ^ 21" "b < 10 ^ 21" "c < 10 ^ 21"
    using assms(4-6) by simp_all
  have iff: "(\<exists>s. constructBidShares a b c = Inr s) = (toFixed4 a + toFixed4 b + toFixed4 c = 100)"
    using assms(1-3) big by (rule constructBidShares_success)
  have "\<exists>s. constructBidShares a b c = Inr s"
    if "a * 10 ^ 4 \<in> \<int> \<and> b * 10 ^ 4 \<in> \<int> \<and> c * 10 ^ 4 \<in> \<int> \<and> a + b + c = 100"
  proof -
    have "toFixed4 a = a" "toFixed4 b = b" "toFixed4 c = c"
      using that assms(1-3) big by (simp_all add: toFixed4_four_digits)
    with that iff show ?thesis
      by simp
  qed
  with iff show ?thesis
    by blast
qed

theorem constructBidShares_rounded_sum_witness:
  "(\<exists>s. constructBidShares (333333 / 10 ^ 4) (333333 / 10 ^ 4) (333334 / 10 ^ 4) = Inr s) \<and>
   (\<exists>s. constructBidShares (1 / 16384) 0 (1638399 / 16384) = Inr s) \<and>
   (\<nexists>s. constructBidShares 10 70 10 = Inr s)"
proof (intro conjI)
  show "\<exists>s. constructBidShares (333333 / 10 ^ 4) (333333 / 10 ^ 4) (333334 / 10 ^ 4) = Inr s"
    by (rule constructBidShares_rounded_sum [THEN conjunct2, THEN mp]) simp_all
next
  have "toFixed4 (1 / 16384) + toFixed4 0 + toFixed4 (1638399 / 16384) = 100"
    by (simp add: toFixed4_def)
  then show "\<exists>s. constructBidShares (1 / 16384) 0 (1638399 / 16384) = Inr s"
    by (subst constructBidShares_rounded_sum [THEN conjunct1]) simp_all
next
  have "toFixed4 10 + toFixed4 70 + toFixed4 10 \<noteq> 100"
    by (simp add: toFixed4_def)
  then show "\<nexists>s. constructBidShares 10 70 10 = Inr s"
    by (subst constructBidShares_rounded_sum [THEN conjunct1]) simp_all
qed

text \<open>Three non-negative doubles whose sum is exactly \<open>100\<close> and whose shares are
  rejected: two of them round down to \<open>0.0000\<close>, the third to \<open>99.9999\<close>.\<close>

theorem constructBidShares_sum_100_counterexample:
  "(0::real) \<le> 1 / 32768 \<and> (0::real) \<le> 1638399 / 16384 \<and>
   (1 / 32768 + 1 / 32768 + 1638399 / 16384 = (100::real)) \<and>
   constructBidShares (1 / 32768) (1 / 32768) (1638399 / 16384) =
     Inl (Error ''Invariant failed: The BidShares sum to 99999900000000000000, but they must sum to 100000000000000000000'') \<and>
   validateBidShares \<lparr>value = 0\<rparr> \<lparr>value = 0\<rparr> \<lparr>value = 99999900000000000000\<rparr> \<noteq> Inr ()"
  by (simp add: constructBidShares_def makeDecimal_small_up makeDecimal_near_100
      validateBidShares_eq toString_99_9999)

text \<open>
  C3 (as amended). For a non-negative share below \<open>10^11\<close>, the decimal that
  \<open>constructBidShares\<close> and \<open>constructBid\<close> build is \<open>n * 10^14\<close> for the integer \<open>n\<close> nearest
  to the share times \<open>10^4\<close>, the larger one of two equally near: the share is rounded to the
  nearest multiple of \<open>0.0001\<close>, not truncated.
\<close>

theorem makeDecimal_rounds_to_nearest:
  assumes "0 \<le> x" "x < 10 ^ 11"
  shows "(\<exists>n. makeDecimal x = Inr \<lparr>value = n * 10 ^ 14\<rparr> \<and>
              of_int n - 1 / 2 \<le> x * 10 ^ 4 \<and> x * 10 ^ 4 < of_int n + 1 / 2) \<and>
         (\<forall>bid. constructBid getAddress cu am bi re x = Inr bid \<longrightarrow>
              makeDecimal x = Inr (sellOnShare bid)) \<and>
         (\<forall>sh. constructBidShares x y z = Inr sh \<longrightarrow>
              makeDecimal x = Inr (creator sh) \<and> makeDecimal y = Inr (owner sh) \<and>
              makeDecimal z = Inr (prevOwner sh))"
proof (intro conjI allI impI)
  define n where "n = \<lfloor>x * 10 ^ 4 + 1 / 2\<rfloor>"
  have "x < 10 ^ 21"
    using assms(2) by simp
  with assms(1) have "makeDecimal x = Inr \<lparr>value = n * 10 ^ 14\<rparr>"
    unfolding n_def by (rule makeDecimal_nonneg)
  moreover have "of_int n \<le> x * 10 ^ 4 + 1 / 2" "x * 10 ^ 4 + 1 / 2 < of_int n + 1"
    unfolding n_def by linarith+
  ultimately show "\<exists>n. makeDecimal x = Inr \<lparr>value = n * 10 ^ 14\<rparr> \<and>
      of_int n - 1 / 2 \<le> x * 10 ^ 4 \<and> x * 10 ^ 4 < of_int n + 1 / 2"
    by (intro exI [of _ n]) simp
next
  fix bid
  assume "constructBid getAddress cu am bi re x = Inr bid"
  then show "makeDecimal x = Inr (sellOnShare bid)"
    by (auto simp: constructBid_def split: sum.splits)
next
  fix sh
  assume sh: "constructBidShares x y z = Inr sh"
  then show "makeDecimal x = Inr (creator sh)"
    by (auto simp: constructBidShares_def split: sum.splits)
  from sh show "makeDecimal y = Inr (owner sh)"
    by (auto simp: constructBidShares_def split: sum.splits)
  from sh show "makeDecimal z = Inr (prevOwner sh)"
    by (auto simp: constructBidShares_def split: sum.splits)
qed

theorem makeDecimal_rounds_to_nearest_witness:
  "makeDecimal (1 / 16384) = Inr \<lparr>value = 1 * 10 ^ 14\<rparr> \<and>
   real_of_int 1 - 1 / 2 \<le> 1 / 16384 * 10 ^ 4 \<and> 1 / 16384 * 10 ^ 4 < real_of_int 1 + 1 / 2 \<and>
   makeDecimal (1 / 16384) =
     Inr (sellOnShare \<lparr>currency = ''0xC'', amount = 200, bidder = ''0xB'', recipient = ''0xR'',
          sellOnShare = \<lparr>value = 100000000000000\<rparr>\<rparr>) \<and>
   makeDecimal (1638399 / 16384) =
     Inr (prevOwner \<lparr>owner = \<lparr>value = 0\<rparr>, prevOwner = \<lparr>value = 99999900000000000000\<rparr>,
          creator = \<lparr>value = 100000000000000\<rparr>\<rparr>)"
  using makeDecimal_rounds_to_nearest [of "1 / 16384" Some "''0xC''" 200 "''0xB''" "''0xR''"
      0 "1638399 / 16384"]
    constructBid_sixth_digits constructBidShares_sixth_digits
  by (simp add: makeDecimal_sixth_digits)

text \<open>The double \<open>2^-14 = 0.00006103515625\<close> becomes \<open>0.0001\<close>, where dropping the digits
  beyond the fourth would give \<open>0\<close>.\<close>

theorem truncation_counterexample:
  "makeDecimal (1 / 16384) = Inr \<lparr>value = 100000000000000\<rparr> \<and>
   spec_truncate4 (1 / 16384) = \<lparr>value = 0\<rparr> \<and>
   constructBid Some ''0xC'' 200 ''0xB'' ''0xR'' (1 / 16384) =
     Inr \<lparr>currency = ''0xC'', amount = 200, bidder = ''0xB'', recipient = ''0xR'',
          sellOnShare = \<lparr>value = 100000000000000\<rparr>\<rparr> \<and>
   constructBidShares (1 / 16384) 0 (1638399 / 16384) =
     Inr \<lparr>owner = \<lparr>value = 0\<rparr>, prevOwner = \<lparr>value = 99999900000000000000\<rparr>,
          creator = \<lparr>value = 100000000000000\<rparr>\<rparr>"
  by (simp add: makeDecimal_sixth_digits spec_truncate4_def constructBid_sixth_digits
      constructBidShares_sixth_digits)

text \<open>
  C9. The two digest entry points agree: \<open>sha256FromHexString\<close> on the 0x-prefixed hex
  encoding of a buffer returns the string that \<open>sha256FromBuffer\<close> returns on the buffer.
  Both return \<open>0x\<close> followed by 64 lower-case hex digits, a digest of 256 bits, whenever
  they return; \<open>sha256FromHexString\<close> throws on a string that is not 0x-prefixed hex.
\<close>

theorem sha256_entry_points_agree:
  "sha256FromHexString (''0x'' @ Buffer_toString_hex b) = Inr (sha256FromBuffer b) \<and>
   (\<exists>ds. sha256FromBuffer b = ''0x'' @ ds \<and> length ds = 64 \<and>
         list_all (\<lambda>c. c \<in> set ''0123456789abcdef'') ds) \<and>
   (isHexString data \<longrightarrow>
      (\<exists>ds. sha256FromHexString data = Inr (''0x'' @ ds) \<and> length ds = 64 \<and>
            list_all (\<lambda>c. c \<in> set ''0123456789abcdef'') ds)) \<and>
   (\<not> isHexString data \<longrightarrow>
      sha256FromHexString data = Inl (Error (data @ '' is not valid 0x prefixed hex'')))"
proof (intro conjI impI)
  show "sha256FromHexString (''0x'' @ Buffer_toString_hex b) = Inr (sha256FromBuffer b)"
    by (simp add: sha256FromHexString_def sha256FromBuffer_def isHexString_Buffer hex_toBits_0x)
next
  show "\<exists>ds. sha256FromBuffer b = ''0x'' @ ds \<and> length ds = 64 \<and>
         list_all (\<lambda>c. c \<in> set ''0123456789abcdef'') ds"
    using sha256FromBuffer_format [of b] by (simp add: isLowerHex_def [abs_def])
next
  assume "isHexString data"
  then show "\<exists>ds. sha256FromHexString data = Inr (''0x'' @ ds) \<and> length ds = 64 \<and>
            list_all (\<lambda>c. c \<in> set ''0123456789abcdef'') ds"
    using hex_fromBits_lower [of "sha256_hash (hex_toBits data)"]
    by (simp add: sha256FromHexString_def Let_def length_hex_fromBits length_sha256_hash
        isLowerHex_def [abs_def])
next
  assume "\<not> isHexString data"
  then show "sha256FromHexString data = Inl (Error (data @ '' is not valid 0x prefixed hex''))"
    by (simp add: sha256FromHexString_def)
qed

theorem sha256_entry_points_agree_witness:
  "sha256FromHexString ''0x616263'' = Inr (sha256FromBuffer [0x61, 0x62, 0x63]) \<and>
   (\<exists>ds. sha256FromHexString ''0x616263'' = Inr (''0x'' @ ds) \<and> length ds = 64 \<and>
         list_all (\<lambda>c. c \<in> set ''0123456789abcdef'') ds) \<and>
   sha256FromHexString ''616263'' = Inl (Error ''616263 is not valid 0x prefixed hex'')"
proof -
  have h: "isHexString ''0x616263''" "\<not> isHexString ''616263''"
    by (simp_all add: isHexString_def isHexDigit_def)
  have "sha256FromHexString ''0x616263'' = Inr (sha256FromBuffer [0x61, 0x62, 0x63])"
    using sha256_entry_points_agree [of "[0x61, 0x62, 0x63]" "''0x616263''", THEN conjunct1]
    by (simp add: Buffer_abc)
  moreover have "\<exists>ds. sha256FromHexString ''0x616263'' = Inr (''0x'' @ ds) \<and> length ds = 64 \<and>
         list_all (\<lambda>c. c \<in> set ''0123456789abcdef'') ds"
    using sha256_entry_points_agree [of "[]" "''0x616263''"] h(1) by blast
  moreover have "sha256FromHexString ''616263'' = Inl (Error ''616263 is not valid 0x prefixed hex'')"
    using sha256_entry_points_agree [of "[]" "''616263''"] h(2) by simp
  ultimately show ?thesis
    by blast
qed

text \<open>
  C4. \<open>isURIHashVerified\<close> has three outcomes. It rejects, without a request, when the URI
  is invalid, and rejects with the message of the failure when the request fails or times
  out; when the request succeeds it resolves to whether the digest of the body equals the
  normalized expected hash. It resolves to \<open>false\<close> only after a request that succeeded
  with a different digest, and to \<open>true\<close> only after one with the same digest.
\<close>

theorem isURIHashVerified_outcomes:
  "(validateURI uri = Inl e \<longrightarrow> isURIHashVerified get uri h t rs = (Rejected (message e), rs)) \<and>
   (validateURI uri = Inr () \<and> get uri t = Inl msg \<longrightarrow>
      isURIHashVerified get uri h t rs = (Rejected msg, rs @ [uri])) \<and>
   (validateURI uri = Inr () \<and> get uri t = Inr data \<and> hexlify h = Inr n \<longrightarrow>
      isURIHashVerified get uri h t rs = (Resolved (sha256FromBuffer data = n), rs @ [uri])) \<and>
   (fst (isURIHashVerified get uri h t rs) = Resolved False \<longrightarrow>
      validateURI uri = Inr () \<and>
      (\<exists>data n. get uri t = Inr data \<and> hexlify h = Inr n \<and> sha256FromBuffer data \<noteq> n)) \<and>
   (fst (isURIHashVerified get uri h t rs) = Resolved True \<longrightarrow>
      validateURI uri = Inr () \<and>
      (\<exists>data n. get uri t = Inr data \<and> hexlify h = Inr n \<and> sha256FromBuffer data = n))"
proof (intro conjI impI)
  assume "validateURI uri = Inl e"
  then show "isURIHashVerified get uri h t rs = (Rejected (message e), rs)"
    by (simp add: isURIHashVerified_cases)
next
  assume "validateURI uri = Inr () \<and> get uri t = Inl msg"
  then show "isURIHashVerified get uri h t rs = (Rejected msg, rs @ [uri])"
    by (simp add: isURIHashVerified_cases)
next
  assume "validateURI uri = Inr () \<and> get uri t = Inr data \<and> hexlify h = Inr n"
  then show "isURIHashVerified get uri h t rs = (Resolved (sha256FromBuffer data = n), rs @ [uri])"
    by (simp add: isURIHashVerified_cases)
next
  assume a: "fst (isURIHashVerified get uri h t rs) = Resolved False"
  then show "validateURI uri = Inr ()"
    by (auto simp: isURIHashVerified_cases split: sum.splits)
  from a show "\<exists>data n. get uri t = Inr data \<and> hexlify h = Inr n \<and> sha256FromBuffer data \<noteq> n"
    by (auto simp: isURIHashVerified_cases split: sum.splits)
next
  assume a: "fst (isURIHashVerified get uri h t rs) = Resolved True"
  then show "validateURI uri = Inr ()"
    by (auto simp: isURIHashVerified_cases split: sum.splits)
  from a show "\<exists>data n. get uri t = Inr data \<and> hexlify h = Inr n \<and> sha256FromBuffer data = n"
    by (auto simp: isURIHashVerified_cases split: sum.splits)
qed

theorem isURIHashVerified_outcomes_witness:
  "isURIHashVerified example_network ''http://a.io/x'' (Str (sha256FromBuffer [0x61])) 10 [] =
     (Rejected ''Invariant failed: http://a.io/x must begin with `https://`'', []) \<and>
   isURIHashVerified example_network ''https://b.io/y'' (Str (sha256FromBuffer [0x61])) 10 [] =
     (Rejected ''Network Error'', [''https://b.io/y'']) \<and>
   isURIHashVerified example_network ''https://a.io/x'' (Str (sha256FromBuffer [0x61])) 10 [] =
     (Resolved True, [''https://a.io/x'']) \<and>
   isURIHashVerified example_network ''https://a.io/x'' (Str ''0x00'') 10 [] =
     (Resolved False, [''https://a.io/x''])"
proof (intro conjI)
  have bad: "validateURI ''http://a.io/x'' =
      Inl (Error ''Invariant failed: http://a.io/x must begin with `https://`'')"
    by (simp add: validateURI_eq)
  have ok: "validateURI ''https://a.io/x'' = Inr ()" "validateURI ''https://b.io/y'' = Inr ()"
    by (simp_all add: validateURI_eq)
  have h0: "hexlify (Str ''0x00'') = Inr ''0x00''"
    by (simp add: hexlify_def isHexString_def isHexDigit_def toLowerCase_def)
  have ne: "sha256FromBuffer [0x61] \<noteq> ''0x00''"
    using sha256FromBuffer_length [of "[0x61]"] by auto
  show "isURIHashVerified example_network ''http://a.io/x'' (Str (sha256FromBuffer [0x61])) 10 [] =
     (Rejected ''Invariant failed: http://a.io/x must begin with `https://`'', [])"
    using isURIHashVerified_outcomes [THEN conjunct1, THEN mp, OF bad] by simp
  show "isURIHashVerified example_network ''https://b.io/y'' (Str (sha256FromBuffer [0x61])) 10 [] =
     (Rejected ''Network Error'', [''https://b.io/y''])"
    using isURIHashVerified_outcomes [THEN conjunct2, THEN conjunct1, THEN mp,
        of "''https://b.io/y''" example_network 10 "''Network Error''"] ok
    by (simp add: example_network_def)
  show "isURIHashVerified example_network ''https://a.io/x'' (Str (sha256FromBuffer [0x61])) 10 [] =
     (Resolved True, [''https://a.io/x''])"
    using isURIHashVerified_outcomes [THEN conjunct2, THEN conjunct2, THEN conjunct1, THEN mp,
        of "''https://a.io/x''" example_network 10 "[0x61]" "Str (sha256FromBuffer [0x61])"
           "sha256FromBuffer [0x61]"] ok
    by (simp add: example_network_def hexlify_sha256FromBuffer)
  show "isURIHashVerified example_network ''https://a.io/x'' (Str ''0x00'') 10 [] =
     (Resolved False, [''https://a.io/x''])"
    using isURIHashVerified_outcomes [THEN conjunct2, THEN conjunct2, THEN conjunct1, THEN mp,
        of "''https://a.io/x''" example_network 10 "[0x61]" "Str ''0x00''" "''0x00''"] ok h0 ne
    by (simp add: example_network_def)
qed

text \<open>
  C5 (as amended). \<open>isItemDataVerified\<close> and its siblings for avatars, spaces and lands
  resolve to the conjunction of the two verifications when both resolve. The two requests
  are made one after the other: the verification of the metadata URI starts from the
  requests that the verification of the token URI has left, and when the first
  verification rejects, the rejection is passed on and the second is never started.
\<close>

theorem isItemDataVerified_sequential:
  "(isURIHashVerified get (tokenURI d) (contentHash d) t rs = (Resolved b1, rs1) \<and>
    isURIHashVerified get (metadataURI d) (metadataHash d) t rs1 = (Resolved b2, rs2) \<longrightarrow>
      isItemDataVerified get d t rs = (Resolved (b1 \<and> b2), rs2)) \<and>
   (isURIHashVerified get (tokenURI d) (contentHash d) t rs = (Rejected r, rs1) \<longrightarrow>
      isItemDataVerified get d t rs = (Rejected r, rs1)) \<and>
   (isURIHashVerified get (tokenURI d) (contentHash d) t rs = (Resolved b1, rs1) \<and>
    isURIHashVerified get (metadataURI d) (metadataHash d) t rs1 = (Rejected r, rs2) \<longrightarrow>
      isItemDataVerified get d t rs = (Rejected r, rs2)) \<and>
   isAvatarDataVerified get av t rs = isItemDataVerified get (asItemData av) t rs \<and>
   isSpaceDataVerified get sp t rs = isItemDataVerified get (asItemData sp) t rs \<and>
   isLandDataVerified get la t rs = isItemDataVerified get (asItemData la) t rs"
proof (intro conjI impI)
  assume "isURIHashVerified get (tokenURI d) (contentHash d) t rs = (Resolved b1, rs1) \<and>
    isURIHashVerified get (metadataURI d) (metadataHash d) t rs1 = (Resolved b2, rs2)"
  then show "isItemDataVerified get d t rs = (Resolved (b1 \<and> b2), rs2)"
    by (simp add: isItemDataVerified_cases)
next
  assume "isURIHashVerified get (tokenURI d) (contentHash d) t rs = (Rejected r, rs1)"
  then show "isItemDataVerified get d t rs = (Rejected r, rs1)"
    by (simp add: isItemDataVerified_cases)
next
  assume "isURIHashVerified get (tokenURI d) (contentHash d) t rs = (Resolved b1, rs1) \<and>
    isURIHashVerified get (metadataURI d) (metadataHash d) t rs1 = (Rejected r, rs2)"
  then show "isItemDataVerified get d t rs = (Rejected r, rs2)"
    by (simp add: isItemDataVerified_cases)
qed (rule isAvatarDataVerified_eq isSpaceDataVerified_eq isLandDataVerified_eq)+

theorem isItemDataVerified_sequential_witness:
  "isItemDataVerified example_network example_item 10 [] =
     (Rejected ''Network Error'', [''https://a.io/x'', ''https://a.io/m'']) \<and>
   isItemDataVerified example_network (example_item\<lparr>metadataURI := ''https://a.io/x''\<rparr>) 10 [] =
     (Resolved True, [''https://a.io/x'', ''https://a.io/x'']) \<and>
   isItemDataVerified example_network (example_item\<lparr>tokenURI := ''https://b.io/y''\<rparr>) 10 [] =
     (Rejected ''Network Error'', [''https://b.io/y''])"
proof (intro conjI)
  have ok: "validateURI ''https://a.io/x'' = Inr ()" "validateURI ''https://b.io/y'' = Inr ()"
    "validateURI ''https://a.io/m'' = Inr ()"
    by (simp_all add: validateURI_eq)
  have hit: "isURIHashVerified example_network ''https://a.io/x'' (Str (sha256FromBuffer [0x61])) 10 rs =
     (Resolved True, rs @ [''https://a.io/x''])" for rs
    by (simp add: isURIHashVerified_cases ok example_network_def hexlify_sha256FromBuffer)
  have miss: "isURIHashVerified example_network u (Str (sha256FromBuffer [0x61])) 10 rs =
     (Rejected ''Network Error'', rs @ [u])" if "validateURI u = Inr ()" "u \<noteq> ''https://a.io/x''" for u rs
    using that by (simp add: isURIHashVerified_cases example_network_def)
  show "isItemDataVerified example_network example_item 10 [] =
     (Rejected ''Network Error'', [''https://a.io/x'', ''https://a.io/m''])"
    using isItemDataVerified_sequential [THEN conjunct2, THEN conjunct2, THEN conjunct1, THEN mp,
        of example_network example_item 10 "[]" True "[''https://a.io/x'']"
           "''Network Error''" "[''https://a.io/x'', ''https://a.io/m'']"]
      hit [of "[]"] miss [of "''https://a.io/m''" "[''https://a.io/x'']"] ok
    by (simp add: example_item_def)
  show "isItemDataVerified example_network (example_item\<lparr>metadataURI := ''https://a.io/x''\<rparr>) 10 [] =
     (Resolved True, [''https://a.io/x'', ''https://a.io/x''])"
    using isItemDataVerified_sequential [THEN conjunct1, THEN mp,
        of example_network "example_item\<lparr>metadataURI := ''https://a.io/x''\<rparr>" 10 "[]" True
           "[''https://a.io/x'']" True "[''https://a.io/x'', ''https://a.io/x'']"]
      hit [of "[]"] hit [of "[''https://a.io/x'']"]
    by (simp add: example_item_def)
  show "isItemDataVerified example_network (example_item\<lparr>tokenURI := ''https://b.io/y''\<rparr>) 10 [] =
     (Rejected ''Network Error'', [''https://b.io/y''])"
    using isItemDataVerified_sequential [THEN conjunct2, THEN conjunct1, THEN mp,
        of example_network "example_item\<lparr>tokenURI := ''https://b.io/y''\<rparr>" 10 "[]"
           "''Network Error''" "[''https://b.io/y'']"]
      miss [of "''https://b.io/y''" "[]"] ok
    by (simp add: example_item_def)
qed

text \<open>When the request for the token URI times out, the metadata URI is never requested;
  requests made without waiting for each other would both have been made.\<close>

theorem concurrent_fetch_counterexample:
  "isItemDataVerified failing_network example_item 10 [] =
     (Rejected ''timeout of 10ms exceeded'', [''https://a.io/x'']) \<and>
   ''https://a.io/m'' \<notin> set (snd (isItemDataVerified failing_network example_item 10 [])) \<and>
   isLandDataVerified failing_network
     \<lparr>tokenURI = ''https://a.io/x'', metadataURI = ''https://a.io/m'',
      contentHash = Str (sha256FromBuffer [0x61]), metadataHash = Str (sha256FromBuffer [0x61]),
      xCoordinate = 1, yCoordinate = 2\<rparr> 10 [] =
     (Rejected ''timeout of 10ms exceeded'', [''https://a.io/x''])"
proof -
  have ok: "validateURI ''https://a.io/x'' = Inr ()"
    by (simp add: validateURI_eq)
  have "isURIHashVerified failing_network ''https://a.io/x'' h 10 [] =
     (Rejected ''timeout of 10ms exceeded'', [''https://a.io/x''])" for h
    by (simp add: isURIHashVerified_cases ok failing_network_def)
  then show ?thesis
    by (simp add: isItemDataVerified_cases isLandDataVerified_def example_item_def)
qed

text \<open>
  C8. \<open>isValidBid\<close> resolves to \<open>true\<close> only if the sell-on share of the bid is at most
  \<open>100 * 10^18\<close> minus the creator's share of the item's current bid shares; a bid whose
  sell-on share exceeds that bound is reported invalid. The bound plays no part when the
  bid is built: \<open>constructBid\<close> accepts every non-negative sell-on share.
\<close>

theorem isValidBid_sellOnShare_bound:
  "(fst (isValidBid this ch itemId bid calls) = Resolved True \<longrightarrow>
      (\<exists>shares. read_bidShares ch (exchange_bidSharesForToken itemId) = Inr shares \<and>
         value (sellOnShare bid) \<le> 100 * 10 ^ 18 - value (creator shares))) \<and>
   (read_bool ch (exchange_isValidBid itemId (amount bid)) = Inr amountValid \<and>
    read_bidShares ch (exchange_bidSharesForToken itemId) = Inr shares \<and>
    100 * 10 ^ 18 - value (creator shares) < value (sellOnShare bid) \<longrightarrow>
      fst (isValidBid this ch itemId bid calls) = Resolved False) \<and>
   (getAddress cu = Some cu' \<and> getAddress bi = Some bi' \<and> getAddress re = Some re' \<and> 0 \<le> s \<longrightarrow>
      (\<exists>d. makeDecimal s = Inr d \<and>
         constructBid getAddress cu am bi re s =
           Inr \<lparr>currency = cu', amount = am, bidder = bi', recipient = re', sellOnShare = d\<rparr>))"
proof (intro conjI impI)
  assume "fst (isValidBid this ch itemId bid calls) = Resolved True"
  then show "\<exists>shares. read_bidShares ch (exchange_bidSharesForToken itemId) = Inr shares \<and>
         value (sellOnShare bid) \<le> 100 * 10 ^ 18 - value (creator shares)"
    by (auto simp: isValidBid_cases split: sum.splits)
next
  assume "read_bool ch (exchange_isValidBid itemId (amount bid)) = Inr amountValid \<and>
    read_bidShares ch (exchange_bidSharesForToken itemId) = Inr shares \<and>
    100 * 10 ^ 18 - value (creator shares) < value (sellOnShare bid)"
  then show "fst (isValidBid this ch itemId bid calls) = Resolved False"
    by (simp add: isValidBid_cases)
next
  assume a: "getAddress cu = Some cu' \<and> getAddress bi = Some bi' \<and> getAddress re = Some re' \<and> 0 \<le> s"
  then obtain d where "makeDecimal s = Inr d"
    using makeDecimal_defined by blast
  with a show "\<exists>d. makeDecimal s = Inr d \<and>
         constructBid getAddress cu am bi re s =
           Inr \<lparr>currency = cu', amount = am, bidder = bi', recipient = re', sellOnShare = d\<rparr>"
    by (simp add: constructBid_def validateAndParseAddress_def)
qed

theorem isValidBid_sellOnShare_bound_witness:
  "constructBid Some ''0xC'' 200 ''0xB'' ''0xR'' (901 / 10) = Inr (example_bid 90100000000000000000) \<and>
   fst (isValidBid example_item_wrapper example_chain 0 (example_bid 90100000000000000000) []) =
     Resolved False \<and>
   fst (isValidBid example_item_wrapper example_chain 0 (example_bid (90 * 10 ^ 18)) []) =
     Resolved True \<and>
   value (sellOnShare (example_bid (90 * 10 ^ 18))) \<le> 100 * 10 ^ 18 - value (creator example_shares)"
proof (intro conjI)
  show "constructBid Some ''0xC'' 200 ''0xB'' ''0xR'' (901 / 10) = Inr (example_bid 90100000000000000000)"
    using isValidBid_sellOnShare_bound [THEN conjunct2, THEN conjunct2, THEN mp,
        of Some "''0xC''" "''0xC''" "''0xB''" "''0xB''" "''0xR''" "''0xR''" "901 / 10" 200]
    by (simp add: makeDecimal_90_1 example_bid_def)
  show "fst (isValidBid example_item_wrapper example_chain 0 (example_bid 90100000000000000000) []) =
     Resolved False"
    by (rule isValidBid_sellOnShare_bound [THEN conjunct2, THEN conjunct1, THEN mp,
          of example_chain 0 _ True example_shares])
      (simp add: example_chain_def example_shares_def example_bid_def)
  have t: "fst (isValidBid example_item_wrapper example_chain 0 (example_bid (90 * 10 ^ 18)) []) =
     Resolved True"
    by (simp add: isValidBid_cases example_chain_def example_shares_def example_bid_def)
  then show "fst (isValidBid example_item_wrapper example_chain 0 (example_bid (90 * 10 ^ 18)) []) =
     Resolved True" .
  show "value (sellOnShare (example_bid (90 * 10 ^ 18))) \<le> 100 * 10 ^ 18 - value (creator example_shares)"
    using isValidBid_sellOnShare_bound [THEN conjunct1, THEN mp, OF t]
    by (simp add: example_chain_def)
qed

text \<open>
  C10. On a wrapper built from a provider (\<open>readOnly\<close> is true) every method that changes
  state (the seventeen write methods) rejects with the message of \<open>ensureNotReadOnly\<close>
  and leaves the list of contract calls as it was; the fetch methods make their call to
  the contract all the same.
\<close>

theorem readOnly_rejects_writes:
  assumes "MotifItem_new getAddress addresses (Provider p) cid ia iea = Inr this"
  shows "readOnly this \<and>
    updateContentURI this ch itemId uri calls = (Rejected readOnly_message, calls) \<and>
    updateMetadataURI this ch itemId uri calls = (Rejected readOnly_message, calls) \<and>
    mint this ch itemData bidShares calls = (Rejected readOnly_message, calls) \<and>
    mintMultiple this ch items shares calls = (Rejected readOnly_message, calls) \<and>
    mintWithSig this ch cr itemData bidShares sig calls = (Rejected readOnly_message, calls) \<and>
    setAsk this ch itemId ask calls = (Rejected readOnly_message, calls) \<and>
    setBid this ch itemId bid calls = (Rejected readOnly_message, calls) \<and>
    removeAsk this ch itemId calls = (Rejected readOnly_message, calls) \<and>
    removeBid this ch itemId calls = (Rejected readOnly_message, calls) \<and>
    acceptBid this ch itemId bid calls = (Rejected readOnly_message, calls) \<and>
    permit this ch spender itemId sig calls = (Rejected readOnly_message, calls) \<and>
    revokeApproval this ch itemId calls = (Rejected readOnly_message, calls) \<and>
    burn this ch itemId calls = (Rejected readOnly_message, calls) \<and>
    approve this ch to itemId calls = (Rejected readOnly_message, calls) \<and>
    setApprovalForAll this ch operator approved calls = (Rejected readOnly_message, calls) \<and>
    transferFrom this ch from to itemId calls = (Rejected readOnly_message, calls) \<and>
    safeTransferFrom this ch from to itemId calls = (Rejected readOnly_message, calls) \<and>
    fetchContentHash this ch itemId calls =
      perform (read_string ch) (item_tokenContentHashes itemId) calls \<and>
    fetchMetadataHash this ch itemId calls =
      perform (read_string ch) (item_tokenMetadataHashes itemId) calls \<and>
    fetchTokenContract this ch itemId calls =
      perform (read_string ch) (item_tokenContractAddresses itemId) calls \<and>
    fetchContentURI this ch itemId calls = perform (read_string ch) (item_tokenURI itemId) calls \<and>
    fetchMetadataURI this ch itemId calls =
      perform (read_string ch) (item_tokenMetadataURI itemId) calls \<and>
    fetchCreator this ch itemId calls = perform (read_string ch) (item_tokenCreators itemId) calls \<and>
    fetchCurrentBidShares this ch itemId calls =
      perform (read_bidShares ch) (exchange_bidSharesForToken itemId) calls \<and>
    fetchCurrentAsk this ch itemId calls =
      perform (read_ask ch) (exchange_currentAskForToken itemId) calls \<and>
    fetchCurrentBidForBidder this ch itemId spender calls =
      perform (read_bid ch) (exchange_bidForTokenBidder itemId spender) calls \<and>
    fetchPermitNonce this ch spender itemId calls =
      perform (read_number ch) (item_permitNonces spender itemId) calls \<and>
    fetchMintWithSigNonce this ch spender calls =
      perform (read_number ch) (item_mintWithSigNonces spender) calls \<and>
    fetchBalanceOf this ch spender calls = perform (read_number ch) (item_balanceOf spender) calls \<and>
    fetchOwnerOf this ch itemId calls = perform (read_string ch) (item_ownerOf itemId) calls \<and>
    fetchItemOfOwnerByIndex this ch spender itemId calls =
      perform (read_number ch) (item_tokenOfOwnerByIndex spender itemId) calls \<and>
    fetchTotalItem this ch calls = perform (read_number ch) item_totalSupply calls \<and>
    fetchItemByIndex this ch itemId calls = perform (read_number ch) (item_tokenByIndex itemId) calls \<and>
    fetchApproved this ch itemId calls = perform (read_string ch) (item_getApproved itemId) calls \<and>
    fetchIsApprovedForAll this ch spender operator calls =
      perform (read_bool ch) (item_isApprovedForAll spender operator) calls"
proof -
  have ro: "readOnly this"
    using assms by (rule MotifItem_new_Provider)
  note a = attempt_readOnly [OF ro]
  have w: "updateContentURI this ch itemId uri calls = (Rejected readOnly_message, calls)"
    "updateMetadataURI this ch itemId uri calls = (Rejected readOnly_message, calls)"
    "mint this ch itemData bidShares calls = (Rejected readOnly_message, calls)"
    "mintMultiple this ch items shares calls = (Rejected readOnly_message, calls)"
    "mintWithSig this ch cr itemData bidShares sig calls = (Rejected readOnly_message, calls)"
    "setAsk this ch itemId ask calls = (Rejected readOnly_message, calls)"
    "setBid this ch itemId bid calls = (Rejected readOnly_message, calls)"
    "removeAsk this ch itemId calls = (Rejected readOnly_message, calls)"
    "removeBid this ch itemId calls = (Rejected readOnly_message, calls)"
    "acceptBid this ch itemId bid calls = (Rejected readOnly_message, calls)"
    "permit this ch spender itemId sig calls = (Rejected readOnly_message, calls)"
    "revokeApproval this ch itemId calls = (Rejected readOnly_message, calls)"
    "burn this ch itemId calls = (Rejected readOnly_message, calls)"
    "approve this ch to itemId calls = (Rejected readOnly_message, calls)"
    "setApprovalForAll this ch operator approved calls = (Rejected readOnly_message, calls)"
    "transferFrom this ch from to itemId calls = (Rejected readOnly_message, calls)"
    "safeTransferFrom this ch from to itemId calls = (Rejected readOnly_message, calls)"
    unfolding updateContentURI_def updateMetadataURI_def mint_def mintMultiple_def mintWithSig_def
      setAsk_def setBid_def removeAsk_def removeBid_def acceptBid_def permit_def
      revokeApproval_def burn_def approve_def setApprovalForAll_def transferFrom_def
      safeTransferFrom_def a
    by simp_all
  have f: "fetchContentHash this ch itemId calls =
      perform (read_string ch) (item_tokenContentHashes itemId) calls"
    "fetchMetadataHash this ch itemId calls =
      perform (read_string ch) (item_tokenMetadataHashes itemId) calls"
    "fetchTokenContract this ch itemId calls =
      perform (read_string ch) (item_tokenContractAddresses itemId) calls"
    "fetchContentURI this ch itemId calls = perform (read_string ch) (item_tokenURI itemId) calls"
    "fetchMetadataURI this ch itemId calls =
      perform (read_string ch) (item_tokenMetadataURI itemId) calls"
    "fetchCreator this ch itemId calls = perform (read_string ch) (item_tokenCreators itemId) calls"
    "fetchCurrentBidShares this ch itemId calls =
      perform (read_bidShares ch) (exchange_bidSharesForToken itemId) calls"
    "fetchCurrentAsk this ch itemId calls =
      perform (read_ask ch) (exchange_currentAskForToken itemId) calls"
    "fetchCurrentBidForBidder this ch itemId spender calls =
      perform (read_bid ch) (exchange_bidForTokenBidder itemId spender) calls"
    "fetchPermitNonce this ch spender itemId calls =
      perform (read_number ch) (item_permitNonces spender itemId) calls"
    "fetchMintWithSigNonce this ch spender calls =
      perform (read_number ch) (item_mintWithSigNonces spender) calls"
    "fetchBalanceOf this ch spender calls = perform (read_number ch) (item_balanceOf spender) calls"
    "fetchOwnerOf this ch itemId calls = perform (read_string ch) (item_ownerOf itemId) calls"
    "fetchItemOfOwnerByIndex this ch spender itemId calls =
      perform (read_number ch) (item_tokenOfOwnerByIndex spender itemId) calls"
    "fetchTotalItem this ch calls = perform (read_number ch) item_totalSupply calls"
    "fetchItemByIndex this ch itemId calls = perform (read_number ch) (item_tokenByIndex itemId) calls"
    "fetchApproved this ch itemId calls = perform (read_string ch) (item_getApproved itemId) calls"
    "fetchIsApprovedForAll this ch spender operator calls =
      perform (read_bool ch) (item_isApprovedForAll spender operator) calls"
    by (simp_all add: fetchContentHash_def fetchMetadataHash_def fetchTokenContract_def
        fetchContentURI_def fetchMetadataURI_def fetchCreator_def fetchCurrentBidShares_def
        fetchCurrentAsk_def fetchCurrentBidForBidder_def fetchPermitNonce_def
        fetchMintWithSigNonce_def fetchBalanceOf_def fetchOwnerOf_def fetchItemOfOwnerByIndex_def
        fetchTotalItem_def fetchItemByIndex_def fetchApproved_def fetchIsApprovedForAll_def)
  from ro w f show ?thesis
    by (intro conjI)
qed

theorem readOnly_rejects_writes_witness:
  "MotifItem_new Some (\<lambda>n. Some (''0xItem'', ''0xExchange'')) (Provider ''rpc'') 7018 None None =
     Inr example_item_wrapper \<and>
   readOnly example_item_wrapper \<and>
   mint example_item_wrapper example_chain example_item example_shares [] =
     (Rejected ''ensureNotReadOnly: readOnly Motif instance cannot call contract methods that require a signer.'', []) \<and>
   setAsk example_item_wrapper example_chain 0 \<lparr>currency = ''0xC'', amount = 100\<rparr> [] =
     (Rejected ''ensureNotReadOnly: readOnly Motif instance cannot call contract methods that require a signer.'', []) \<and>
   fetchContentURI example_item_wrapper example_chain 0 [] = (Resolved ''0x'', [item_tokenURI 0])"
  using readOnly_rejects_writes [OF MotifItem_new_example, of example_chain 0 "''u''" "[]"
      example_item example_shares "[]" "[]" "''c''"
      "\<lparr>deadline = 0, sig_v = 27, sig_r = Str ''0x'', sig_s = Str ''0x''\<rparr>"
      "\<lparr>currency = ''0xC'', amount = 100\<rparr>"]
    MotifItem_new_example
  by (simp add: readOnly_message_def perform_def example_chain_def)

end
